theory Spec2Isabelle
  imports Main "HOL-Library.AList" "HOL-Library.Sublist" "HOL-Library.Multiset"
begin

section \<open>JavaScript values held by the store and by requests\<close>

text \<open>
  The server keeps its records in \<^verbatim>\<open>projects.json\<close> and receives request bodies
  parsed by \<^verbatim>\<open>express.json()\<close>, \<^verbatim>\<open>express.urlencoded()\<close> or multer. All of these
  are JSON-shaped values. A string is the list of its code units, restricted to
  the 8-bit range. A number is its integer value together with the string that
  \<^verbatim>\<open>Number.prototype.toString\<close> gives for it (\<^verbatim>\<open>"5"\<close> for 5, \<^verbatim>\<open>"1e+21"\<close> for
  1e21): the printing is the engine's, so it travels with the value, and every
  statement below holds whatever string a number carries (fractions are
  outside the model). An object is an association list in
  property order: \<open>map_of\<close> reads a property, \<open>AList.update\<close> assigns one
  (in place, or appended when new) and \<open>AList.delete\<close> is \<^verbatim>\<open>delete\<close>. A property
  that is absent reads as \<^verbatim>\<open>undefined\<close>, modelled as \<open>None\<close>.
\<close>

datatype jv =
    JNull
  | JBool bool
  | JNum int string
  | JStr string
  | JArr "jv list"
  | JObj "(string \<times> jv) list"

type_synonym obj = "(string \<times> jv) list"

text \<open>An uncaught exception of a handler; Express answers it with status 500.\<close>

datatype exn = TypeError

text \<open>ToBoolean, with \<open>None\<close> for \<^verbatim>\<open>undefined\<close>.\<close>

fun truthy :: "jv option \<Rightarrow> bool" where
  "truthy None = False"
| "truthy (Some JNull) = False"
| "truthy (Some (JBool b)) = b"
| "truthy (Some (JNum n printed)) = (n \<noteq> 0)"
| "truthy (Some (JStr s)) = (s \<noteq> [])"
| "truthy (Some (JArr xs)) = True"
| "truthy (Some (JObj kvs)) = True"

text \<open>\<^verbatim>\<open>a || b\<close> on possibly undefined values.\<close>

definition js_or :: "jv option \<Rightarrow> jv option \<Rightarrow> jv option" where
  "js_or a b = (if truthy a then a else b)"

fun isArray :: "jv \<Rightarrow> bool" where
  "isArray (JArr xs) = True"
| "isArray v = False"

section \<open>Record store\<close>

text \<open>
  The store document is modelled after \<^verbatim>\<open>JSON.parse\<close>: \<open>None\<close> is a document
  that cannot be read or parsed, or that makes the mapping function throw
  (\<^verbatim>\<open>readProjects\<close> catches all of these and returns the empty list);
  \<open>Some rs\<close> is an array of objects with distinct keys, which is what
  \<^verbatim>\<open>writeProjects\<close> produces from records made by the create handler.

  \<^verbatim>\<open>
  return data.map((p) => {
    if (p.image && !p.images) {
      p.images = Array.isArray(p.image) ? p.image : [p.image];
      delete p.image;
    }
    p.images = p.images || [];
    return p;
  });
  \<close>
\<close>

type_synonym store = "obj list option"

definition migrate :: "obj \<Rightarrow> obj" where
  "migrate p =
    (let p1 =
       (if truthy (map_of p ''image'') \<and> \<not> truthy (map_of p ''images'')
        then (case map_of p ''image'' of
                Some img \<Rightarrow>
                  AList.delete ''image''
                    (AList.update ''images'' (if isArray img then img else JArr [img]) p)
              | None \<Rightarrow> p)
        else p)
     in AList.update ''images''
          (case js_or (map_of p1 ''images'') (Some (JArr [])) of
             Some v \<Rightarrow> v | None \<Rightarrow> JArr [])
          p1)"

definition readProjects :: "store \<Rightarrow> obj list" where
  "readProjects doc = (case doc of None \<Rightarrow> [] | Some data \<Rightarrow> map migrate data)"

definition writeProjects :: "obj list \<Rightarrow> store" where
  "writeProjects list = Some list"

section \<open>Strings and conversions\<close>

text \<open>
  White space as \<^verbatim>\<open>String.prototype.trim\<close> and \<^verbatim>\<open>parseInt\<close> strip it, within the
  8-bit range: TAB, LF, VT, FF, CR, SP and NBSP.
\<close>

definition is_space :: "char \<Rightarrow> bool" where
  "is_space c = (c \<in> set [CHR 0x09, CHR 0x0A, CHR 0x0B, CHR 0x0C, CHR 0x0D, CHR 0x20, CHR 0xA0])"

definition trim :: "string \<Rightarrow> string" where
  "trim s = rev (dropWhile is_space (rev (dropWhile is_space s)))"

text \<open>\<^verbatim>\<open>s.split(c)\<close> for a one-character separator; the empty string gives \<^verbatim>\<open>[""]\<close>.\<close>

fun split_on :: "char \<Rightarrow> string \<Rightarrow> string list" where
  "split_on c [] = [[]]"
| "split_on c (x # xs) =
    (if x = c then [] # split_on c xs
     else (case split_on c xs of w # ws \<Rightarrow> (x # w) # ws | [] \<Rightarrow> [[x]]))"

text \<open>\<^verbatim>\<open>.split(sep).map((s) => s.trim()).filter(Boolean)\<close>\<close>

definition split_trim :: "char \<Rightarrow> string \<Rightarrow> string list" where
  "split_trim sep s = filter (\<lambda>x. x \<noteq> []) (map trim (split_on sep s))"

fun join :: "string \<Rightarrow> string list \<Rightarrow> string" where
  "join sep [] = []"
| "join sep [x] = x"
| "join sep (x # y # ys) = x @ sep @ join sep (y # ys)"

text \<open>
  ToString. A number gives the string it carries. An array joins the strings of its elements with commas, \<^verbatim>\<open>null\<close>
  elements giving the empty string. A plain object gives \<^verbatim>\<open>[object Object]\<close>,
  unless it has an own property \<^verbatim>\<open>toString\<close>: a parsed value is never callable,
  so the conversion then finds no primitive and throws a TypeError (\<open>None\<close>).
\<close>

fun to_string :: "jv \<Rightarrow> string option" where
  "to_string JNull = Some ''null''"
| "to_string (JBool b) = Some (if b then ''true'' else ''false'')"
| "to_string (JNum n printed) = Some printed"
| "to_string (JStr s) = Some s"
| "to_string (JArr xs) =
    map_option (join '','')
      (those (map (\<lambda>x. if x = JNull then Some [] else to_string x) xs))"
| "to_string (JObj kvs) =
    (if ''toString'' \<in> fst ` set kvs then None else Some ''[object Object]'')"

text \<open>
  \<^verbatim>\<open>parseInt(s, 10)\<close>: leading white space is skipped, one sign is read, then
  the longest run of decimal digits; no digit gives \<^verbatim>\<open>NaN\<close> (\<open>None\<close>).
\<close>

definition is_digit :: "char \<Rightarrow> bool" where
  "is_digit c = (48 \<le> (of_char c :: nat) \<and> (of_char c :: nat) \<le> 57)"

definition digits_val :: "string \<Rightarrow> nat" where
  "digits_val ds = foldl (\<lambda>a c. 10 * a + (of_char c - 48)) 0 ds"

definition parseInt10 :: "string \<Rightarrow> int option" where
  "parseInt10 s =
    (let t = dropWhile is_space s;
         neg = (case t of c # r \<Rightarrow> c = CHR ''-'' | [] \<Rightarrow> False);
         u = (case t of c # r \<Rightarrow> if c = CHR ''-'' \<or> c = CHR ''+'' then r else t | [] \<Rightarrow> []);
         ds = takeWhile is_digit u
     in if ds = [] then None
        else Some (if neg then - int (digits_val ds) else int (digits_val ds)))"

text \<open>
  \<^verbatim>\<open>a === b\<close>. Primitives compare by value. Arrays and objects compare by
  identity, and the two sides are always separately parsed values here.
\<close>

fun strict_eq :: "jv \<Rightarrow> jv \<Rightarrow> bool" where
  "strict_eq JNull JNull = True"
| "strict_eq (JBool a) (JBool b) = (a = b)"
| "strict_eq (JNum a pa) (JNum b pb) = (a = b)"
| "strict_eq (JStr a) (JStr b) = (a = b)"
| "strict_eq a b = False"

text \<open>
  \<^verbatim>\<open>(img) => img === rem || img.endsWith(rem)\<close>. Only a string has
  \<^verbatim>\<open>endsWith\<close>; its argument is converted with ToString.
\<close>

definition matches :: "jv \<Rightarrow> jv \<Rightarrow> exn + bool" where
  "matches rem img =
    (if strict_eq img rem then Inr True
     else (case img of
             JStr s \<Rightarrow> (case to_string rem of
                          None \<Rightarrow> Inl TypeError
                        | Some r \<Rightarrow> Inr (suffix r s))
           | _ \<Rightarrow> Inl TypeError))"

text \<open>\<^verbatim>\<open>xs.findIndex(f)\<close>, with \<open>None\<close> for -1; an exception of \<open>f\<close> propagates.\<close>

fun findIndex :: "('a \<Rightarrow> exn + bool) \<Rightarrow> 'a list \<Rightarrow> exn + nat option" where
  "findIndex f [] = Inr None"
| "findIndex f (x # xs) =
    (case f x of
       Inl e \<Rightarrow> Inl e
     | Inr True \<Rightarrow> Inr (Some 0)
     | Inr False \<Rightarrow>
        (case findIndex f xs of
           Inl e \<Rightarrow> Inl e
         | Inr None \<Rightarrow> Inr None
         | Inr (Some i) \<Rightarrow> Inr (Some (Suc i))))"

text \<open>\<^verbatim>\<open>list.findIndex((p) => p.id === id)\<close> for the string \<open>id\<close> of the route.\<close>

definition find_id :: "string \<Rightarrow> obj list \<Rightarrow> nat option" where
  "find_id ident list =
    (case findIndex
            (\<lambda>p. Inr (case map_of p ''id'' of
                         Some v \<Rightarrow> strict_eq v (JStr ident)
                       | None \<Rightarrow> False))
            list of
       Inr r \<Rightarrow> r
     | Inl e \<Rightarrow> None)"

text \<open>
  \<^verbatim>\<open>path.join("assets", "images", "projects", f.filename).replace(/\\/g, "/")\<close>.
  The stored file name is \<^verbatim>\<open>project-<time>-<uuid><ext>\<close> and holds no path
  separator, so joining only prefixes the directory.
\<close>

definition webPath :: "string \<Rightarrow> string" where
  "webPath filename = ''assets/images/projects/'' @ filename"

section \<open>Responses\<close>

datatype response =
    Unauthorized
  | BadRequest
  | NotFound
  | ServerError
  | BodyError nat
  | OkList "obj list"
  | OkProject obj
  | OkDeleted obj
  | Html string
  | NotFoundText

fun status :: "response \<Rightarrow> nat" where
  "status Unauthorized = 401"
| "status BadRequest = 400"
| "status NotFound = 404"
| "status ServerError = 500"
| "status (BodyError code) = code"
| "status NotFoundText = 404"
| "status r = 200"

section \<open>Auth gate\<close>

text \<open>
  \<^verbatim>\<open>
  const token = req.cookies?.token;
  if (!token) return res.status(401).json({ message: "Unauthorized" });
  try { jwt.verify(token, JWT_SECRET); next(); }
  catch (e) { return res.status(401).json({ message: "Unauthorized" }); }
  \<close>
  \<open>verify t\<close> holds when \<^verbatim>\<open>jwt.verify(t, JWT_SECRET)\<close> returns, that is when the
  signature and the expiry of \<open>t\<close> check. The result is the response sent, or
  \<open>None\<close> when \<^verbatim>\<open>next()\<close> is called.
\<close>

definition requireAuth :: "(string \<Rightarrow> bool) \<Rightarrow> string option \<Rightarrow> response option" where
  "requireAuth verify token =
    (case token of
       None \<Rightarrow> Some Unauthorized
     | Some t \<Rightarrow> if t = [] then Some Unauthorized
                else if verify t then None
                else Some Unauthorized)"

section \<open>Listing: GET /api/projects\<close>

text \<open>
  \<^verbatim>\<open>new Date(v).getTime()\<close>, with \<open>None\<close> for \<^verbatim>\<open>NaN\<close>. \<open>parse\<close> stands for
  \<^verbatim>\<open>Date.parse\<close> on strings, which the language leaves partly to the engine.
  An array or object is first converted to a string; a number is clipped to
  the range of time values.
\<close>

definition timeClip :: "int \<Rightarrow> int option" where
  "timeClip n = (if \<bar>n\<bar> \<le> 8640000000000000 then Some n else None)"

definition getTime :: "(string \<Rightarrow> int option) \<Rightarrow> jv \<Rightarrow> exn + int option" where
  "getTime parse v =
    (case v of
       JStr s \<Rightarrow> Inr (parse s)
     | JNum n printed \<Rightarrow> Inr (timeClip n)
     | JBool b \<Rightarrow> Inr (Some (if b then 1 else 0))
     | JNull \<Rightarrow> Inr (Some 0)
     | _ \<Rightarrow> (case to_string v of None \<Rightarrow> Inl TypeError | Some s \<Rightarrow> Inr (parse s)))"

text \<open>\<^verbatim>\<open>new Date(a.date || a.createdAt || 0).getTime()\<close>\<close>

definition sortKey :: "(string \<Rightarrow> int option) \<Rightarrow> obj \<Rightarrow> exn + int option" where
  "sortKey parse a =
    (case js_or (js_or (map_of a ''date'') (map_of a ''createdAt'')) (Some (JNum 0 ''0'')) of
       Some v \<Rightarrow> getTime parse v
     | None \<Rightarrow> Inr None)"

text \<open>The comparator \<^verbatim>\<open>(a, b) => db - da\<close>; \<open>None\<close> is \<^verbatim>\<open>NaN\<close>.\<close>

definition compareDates :: "(string \<Rightarrow> int option) \<Rightarrow> obj \<Rightarrow> obj \<Rightarrow> exn + int option" where
  "compareDates parse a b =
    (case sortKey parse a of
       Inl e \<Rightarrow> Inl e
     | Inr da \<Rightarrow>
        (case sortKey parse b of
           Inl e \<Rightarrow> Inl e
         | Inr db \<Rightarrow>
            Inr (case da of
                   None \<Rightarrow> None
                 | Some x \<Rightarrow> (case db of None \<Rightarrow> None | Some y \<Rightarrow> Some (y - x)))))"

text \<open>
  \<^verbatim>\<open>Array.prototype.sort\<close> with a comparator. The sort is stable, and a
  comparator result of \<^verbatim>\<open>NaN\<close> counts as 0, so an element moves behind another
  only when the comparator is positive. For a consistent comparator every
  stable sort returns the same list; this one inserts from the right. An
  exception of the comparator propagates.
\<close>

fun sortInsert :: "('a \<Rightarrow> 'a \<Rightarrow> exn + int option) \<Rightarrow> 'a \<Rightarrow> 'a list \<Rightarrow> exn + 'a list" where
  "sortInsert cmp x [] = Inr [x]"
| "sortInsert cmp x (y # ys) =
    (case cmp x y of
       Inl e \<Rightarrow> Inl e
     | Inr v \<Rightarrow>
        if (case v of None \<Rightarrow> False | Some d \<Rightarrow> 0 < d)
        then (case sortInsert cmp x ys of Inl e \<Rightarrow> Inl e | Inr r \<Rightarrow> Inr (y # r))
        else Inr (x # y # ys))"

fun js_sort :: "('a \<Rightarrow> 'a \<Rightarrow> exn + int option) \<Rightarrow> 'a list \<Rightarrow> exn + 'a list" where
  "js_sort cmp [] = Inr []"
| "js_sort cmp (x # xs) =
    (case js_sort cmp xs of Inl e \<Rightarrow> Inl e | Inr r \<Rightarrow> sortInsert cmp x r)"

definition get_projects :: "(string \<Rightarrow> int option) \<Rightarrow> store \<Rightarrow> response" where
  "get_projects parse doc =
    (case js_sort (compareDates parse) (readProjects doc) of
       Inl e \<Rightarrow> ServerError
     | Inr sorted_list \<Rightarrow> OkList sorted_list)"

section \<open>Create: POST /api/projects\<close>

text \<open>
  \<open>files\<close> is \<^verbatim>\<open>req.files\<close>: the stored names of the uploads, or \<open>None\<close> when
  multer did not parse the request. \<open>uuid\<close> and \<open>now\<close> are the values of
  \<^verbatim>\<open>uuidv4()\<close> and \<^verbatim>\<open>new Date().toISOString()\<close> in this request.
  \<^verbatim>\<open>(outcomes || "").split("\n")\<close> throws when \<open>outcomes\<close> is truthy and no string.
\<close>

definition post_project ::
  "string \<Rightarrow> string \<Rightarrow> store \<Rightarrow> obj \<Rightarrow> string list option \<Rightarrow> response \<times> store" where
  "post_project uuid now doc body files =
    (if \<not> truthy (map_of body ''title'') \<or> \<not> truthy (map_of body ''summary'')
        \<or> \<not> truthy (map_of body ''date'') \<or> \<not> truthy (map_of body ''results'')
     then (BadRequest, doc)
     else
       (let images = map (\<lambda>f. JStr (webPath f)) (case files of Some fs \<Rightarrow> fs | None \<Rightarrow> []);
            list = readProjects doc
        in case js_or (map_of body ''outcomes'') (Some (JStr [])) of
             Some (JStr s) \<Rightarrow>
               (let item =
                  [(''id'', JStr uuid),
                   (''title'', case map_of body ''title'' of Some v \<Rightarrow> v | None \<Rightarrow> JNull),
                   (''images'', JArr images),
                   (''summary'', case map_of body ''summary'' of Some v \<Rightarrow> v | None \<Rightarrow> JNull),
                   (''date'', case map_of body ''date'' of Some v \<Rightarrow> v | None \<Rightarrow> JNull),
                   (''outcomes'', JArr (map JStr (split_trim CHR 0x0A s))),
                   (''results'', case map_of body ''results'' of Some v \<Rightarrow> v | None \<Rightarrow> JNull),
                   (''purpose'',
                      case js_or (map_of body ''purpose'') (Some (JStr [])) of
                        Some v \<Rightarrow> v | None \<Rightarrow> JStr []),
                   (''createdAt'', JStr now)]
                in (OkProject item, writeProjects (list @ [item])))
           | _ \<Rightarrow> (ServerError, doc)))"

section \<open>Update: PUT /api/projects/:id\<close>

text \<open>\<^verbatim>\<open>if (typeof v === "string") list[idx].k = v\<close>\<close>

definition set_if_string :: "string \<Rightarrow> obj \<Rightarrow> obj \<Rightarrow> obj" where
  "set_if_string k body p =
    (case map_of body k of Some (JStr s) \<Rightarrow> AList.update k (JStr s) p | _ \<Rightarrow> p)"

definition set_outcomes :: "obj \<Rightarrow> obj \<Rightarrow> obj" where
  "set_outcomes body p =
    (case map_of body ''outcomes'' of
       Some (JStr s) \<Rightarrow> AList.update ''outcomes'' (JArr (map JStr (split_trim CHR 0x0A s))) p
     | _ \<Rightarrow> p)"

definition update_fields :: "obj \<Rightarrow> obj \<Rightarrow> obj" where
  "update_fields body p =
    set_outcomes body
      (set_if_string ''purpose'' body
        (set_if_string ''results'' body
          (set_if_string ''date'' body
            (set_if_string ''summary'' body
              (set_if_string ''title'' body p)))))"

text \<open>
  The removal list. \<open>json_parse\<close> stands for \<^verbatim>\<open>JSON.parse\<close> on strings, \<open>None\<close>
  when it throws.
  \<^verbatim>\<open>
  try {
    removeList = JSON.parse(req.body.removeImages);
    if (!Array.isArray(removeList)) removeList = [];
  } catch (e) {
    removeList = String(req.body.removeImages).split(",").map((s) => s.trim()).filter(Boolean);
  }
  \<close>
  A value with no string conversion throws in the \<^verbatim>\<open>try\<close> and again in the
  \<^verbatim>\<open>catch\<close>.
\<close>

definition removeList_of :: "(string \<Rightarrow> jv option) \<Rightarrow> jv \<Rightarrow> exn + jv list" where
  "removeList_of json_parse v =
    (case to_string v of
       None \<Rightarrow> Inl TypeError
     | Some s \<Rightarrow>
        Inr (case json_parse s of
               Some w \<Rightarrow> (case w of JArr xs \<Rightarrow> xs | _ \<Rightarrow> [])
             | None \<Rightarrow> map JStr (split_trim CHR '','' s)))"

text \<open>
  One turn of \<^verbatim>\<open>removeList.forEach\<close>: find the first matching reference and
  splice it out. \<^verbatim>\<open>path.join(siteRoot, removed)\<close> throws unless \<open>removed\<close> is a
  string. Deleting the file itself leaves the record as it is.
\<close>

definition remove_one :: "jv \<Rightarrow> obj \<Rightarrow> exn + obj" where
  "remove_one rem p =
    (case js_or (map_of p ''images'') (Some (JArr [])) of
       Some (JArr imgs) \<Rightarrow>
         (case findIndex (matches rem) imgs of
            Inl e \<Rightarrow> Inl e
          | Inr None \<Rightarrow> Inr p
          | Inr (Some i) \<Rightarrow>
             (case imgs ! i of
                JStr removed \<Rightarrow>
                  Inr (AList.update ''images'' (JArr (take i imgs @ drop (Suc i) imgs)) p)
              | _ \<Rightarrow> Inl TypeError))
     | _ \<Rightarrow> Inl TypeError)"

fun remove_each :: "jv list \<Rightarrow> obj \<Rightarrow> exn + obj" where
  "remove_each [] p = Inr p"
| "remove_each (rem # rest) p =
    (case remove_one rem p of Inl e \<Rightarrow> Inl e | Inr p' \<Rightarrow> remove_each rest p')"

definition remove_block :: "(string \<Rightarrow> jv option) \<Rightarrow> obj \<Rightarrow> obj \<Rightarrow> exn + obj" where
  "remove_block json_parse body p =
    (if truthy (map_of body ''removeImages'')
     then (case map_of body ''removeImages'' of
             Some v \<Rightarrow> (case removeList_of json_parse v of
                          Inl e \<Rightarrow> Inl e
                        | Inr removeList \<Rightarrow> remove_each removeList p)
           | None \<Rightarrow> Inr p)
     else Inr p)"

text \<open>
  \<^verbatim>\<open>
  if (req.files && req.files.length) {
    list[idx].images = list[idx].images || [];
    req.files.forEach((f) => { ...; list[idx].images.push(webPath); });
  }
  \<close>
\<close>

definition append_block :: "string list option \<Rightarrow> obj \<Rightarrow> exn + obj" where
  "append_block files p =
    (case files of
       None \<Rightarrow> Inr p
     | Some fs \<Rightarrow>
        if fs = [] then Inr p
        else (case js_or (map_of p ''images'') (Some (JArr [])) of
                Some (JArr imgs) \<Rightarrow>
                  Inr (AList.update ''images'' (JArr (imgs @ map (\<lambda>f. JStr (webPath f)) fs)) p)
              | _ \<Rightarrow> Inl TypeError))"

text \<open>
  \<^verbatim>\<open>
  const asInt = parseInt(mp, 10);
  if (!Number.isNaN(asInt) && asInt >= 0 && asInt < list[idx].images.length) {
    targetIndex = asInt;
  } else {
    targetIndex = list[idx].images.findIndex((img) => img === mp || img.endsWith(mp));
  }
  \<close>
\<close>

definition targetIndex :: "int option \<Rightarrow> jv \<Rightarrow> jv list \<Rightarrow> exn + int" where
  "targetIndex asInt mp imgs =
    (if (case asInt of None \<Rightarrow> False | Some i \<Rightarrow> 0 \<le> i \<and> i < int (length imgs))
     then (case asInt of Some i \<Rightarrow> Inr i | None \<Rightarrow> Inr (- 1))
     else (case findIndex (matches mp) imgs of
             Inl e \<Rightarrow> Inl e
           | Inr None \<Rightarrow> Inr (- 1)
           | Inr (Some k) \<Rightarrow> Inr (int k)))"

text \<open>
  \<^verbatim>\<open>
  if (targetIndex > 0) {
    const [img] = list[idx].images.splice(targetIndex, 1);
    list[idx].images.unshift(img);
  }
  \<close>
\<close>

definition moveToFront :: "int \<Rightarrow> jv list \<Rightarrow> jv list" where
  "moveToFront t imgs =
    (if 0 < t \<and> t < int (length imgs)
     then imgs ! nat t # (take (nat t) imgs @ drop (Suc (nat t)) imgs)
     else imgs)"

text \<open>
  The make-primary step is modelled for a record whose \<open>images\<close> is an array,
  which \<^verbatim>\<open>readProjects\<close> and the handlers keep for every record they create;
  on any other shape the result is \<open>None\<close>: outside the model.
\<close>

definition primary_block :: "obj \<Rightarrow> obj \<Rightarrow> (exn + obj) option" where
  "primary_block body p =
    (if truthy (map_of body ''makePrimary'')
     then (case map_of body ''makePrimary'' of
             None \<Rightarrow> Some (Inr p)
           | Some mp \<Rightarrow>
              (case to_string mp of
                 None \<Rightarrow> Some (Inl TypeError)
               | Some s \<Rightarrow>
                  (case map_of p ''images'' of
                     Some (JArr imgs) \<Rightarrow>
                       (case targetIndex (parseInt10 s) mp imgs of
                          Inl e \<Rightarrow> Some (Inl e)
                        | Inr t \<Rightarrow>
                           Some (Inr (if 0 < t
                                      then AList.update ''images'' (JArr (moveToFront t imgs)) p
                                      else p)))
                   | _ \<Rightarrow> None)))
     else Some (Inr p))"

text \<open>The body of the handler on the record found: fields, then the three image steps.\<close>

definition put_record ::
  "(string \<Rightarrow> jv option) \<Rightarrow> obj \<Rightarrow> string list option \<Rightarrow> obj \<Rightarrow> (exn + obj) option" where
  "put_record json_parse body files p =
    (case remove_block json_parse body (update_fields body p) of
       Inl e \<Rightarrow> Some (Inl e)
     | Inr p1 \<Rightarrow>
        (case append_block files p1 of
           Inl e \<Rightarrow> Some (Inl e)
         | Inr p2 \<Rightarrow> primary_block body p2))"

definition put_project ::
  "(string \<Rightarrow> jv option) \<Rightarrow> store \<Rightarrow> string \<Rightarrow> obj \<Rightarrow> string list option
    \<Rightarrow> (response \<times> store) option" where
  "put_project json_parse doc ident body files =
    (let list = readProjects doc
     in case find_id ident list of
          None \<Rightarrow> Some (NotFound, doc)
        | Some idx \<Rightarrow>
           (case put_record json_parse body files (list ! idx) of
              None \<Rightarrow> None
            | Some (Inl e) \<Rightarrow> Some (ServerError, doc)
            | Some (Inr p') \<Rightarrow> Some (OkProject p', writeProjects (list[idx := p']))))"

section \<open>Delete: DELETE /api/projects/:id\<close>

text \<open>
  \<^verbatim>\<open>
  if (removed.images && removed.images.length) {
    removed.images.forEach((img) => { const fileOnDisk = path.join(siteRoot, img); ... });
  }
  \<close>
  The files themselves are outside the store; what matters here is whether
  the loop throws: \<^verbatim>\<open>path.join\<close> on a reference that is no string, or
  \<^verbatim>\<open>forEach\<close> on a value that has a length and is no array.
\<close>

definition cleanup_throws :: "obj \<Rightarrow> bool" where
  "cleanup_throws removed =
    (case map_of removed ''images'' of
       Some (JArr imgs) \<Rightarrow> list_ex (\<lambda>img. case img of JStr s \<Rightarrow> False | _ \<Rightarrow> True) imgs
     | Some (JStr s) \<Rightarrow> s \<noteq> []
     | Some (JObj kvs) \<Rightarrow> truthy (map_of kvs ''length'')
     | _ \<Rightarrow> False)"

definition delete_project :: "store \<Rightarrow> string \<Rightarrow> response \<times> store" where
  "delete_project doc ident =
    (let list = readProjects doc
     in case find_id ident list of
          None \<Rightarrow> (NotFound, doc)
        | Some idx \<Rightarrow>
           (let removed = list ! idx
            in if cleanup_throws removed then (ServerError, doc)
               else (OkDeleted removed, writeProjects (take idx list @ drop (Suc idx) list))))"

section \<open>The routes: body parsers, auth gate, upload middleware, handler\<close>

text \<open>
  \<^verbatim>\<open>
  app.use(express.json());
  app.use(express.urlencoded({ extended: true }));
  app.use(cookieParser());
  \<close>
  The body parsers run on every request, before any route. Their outcome is
  part of the request as the server sees it: \<open>Inl code\<close> when a parser rejects
  the body (400 for malformed JSON, 413 for a body too large, 415 for an
  unsupported encoding), which Express answers with that status and no route
  runs; \<open>Inr body\<close> otherwise, with \<open>body\<close> the value of \<^verbatim>\<open>req.body\<close>.
\<close>

type_synonym parsed = "nat + obj"

text \<open>
  \<^verbatim>\<open>upload.array("images", 10)\<close> stands between the gate and the handler of
  POST and PUT. A request that is no multipart form passes through with its
  body and with \<^verbatim>\<open>req.files\<close> undefined. A multipart form gives \<^verbatim>\<open>req.body\<close> its
  text fields and \<^verbatim>\<open>req.files\<close> the stored names of the files of its \<^verbatim>\<open>images\<close>
  field, in order; with more than \<open>maxCount\<close> of them, or when the form is
  rejected for another reason (a file under another field, a broken form),
  multer passes an error that has no status, and Express answers 500.
\<close>

datatype upload =
    NotMultipart
  | Multipart obj "string list"
  | BadForm

definition upload_array :: "nat \<Rightarrow> upload \<Rightarrow> obj \<Rightarrow> (obj \<times> string list option) option" where
  "upload_array maxCount up body =
    (case up of
       NotMultipart \<Rightarrow> Some (body, None)
     | Multipart fields filenames \<Rightarrow>
         if maxCount < length filenames then None else Some (fields, Some filenames)
     | BadForm \<Rightarrow> None)"

text \<open>
  \<^verbatim>\<open>app.post("/api/projects", requireAuth, upload.array("images", 10), handler)\<close>,
  \<^verbatim>\<open>app.put("/api/projects/:id", requireAuth, upload.array("images", 10), handler)\<close>
  and \<^verbatim>\<open>app.delete("/api/projects/:id", requireAuth, handler)\<close>.
\<close>

definition route_post ::
  "(string \<Rightarrow> bool) \<Rightarrow> string option \<Rightarrow> string \<Rightarrow> string \<Rightarrow> store \<Rightarrow> parsed
    \<Rightarrow> upload \<Rightarrow> response \<times> store" where
  "route_post verify token uuid now doc parsed up =
    (case parsed of
       Inl code \<Rightarrow> (BodyError code, doc)
     | Inr body \<Rightarrow>
        (case requireAuth verify token of
           Some r \<Rightarrow> (r, doc)
         | None \<Rightarrow>
            (case upload_array 10 up body of
               None \<Rightarrow> (ServerError, doc)
             | Some (fields, files) \<Rightarrow> post_project uuid now doc fields files)))"

definition route_put ::
  "(string \<Rightarrow> bool) \<Rightarrow> string option \<Rightarrow> (string \<Rightarrow> jv option) \<Rightarrow> store \<Rightarrow> string
    \<Rightarrow> parsed \<Rightarrow> upload \<Rightarrow> (response \<times> store) option" where
  "route_put verify token json_parse doc ident parsed up =
    (case parsed of
       Inl code \<Rightarrow> Some (BodyError code, doc)
     | Inr body \<Rightarrow>
        (case requireAuth verify token of
           Some r \<Rightarrow> Some (r, doc)
         | None \<Rightarrow>
            (case upload_array 10 up body of
               None \<Rightarrow> Some (ServerError, doc)
             | Some (fields, files) \<Rightarrow> put_project json_parse doc ident fields files)))"

definition route_delete ::
  "(string \<Rightarrow> bool) \<Rightarrow> string option \<Rightarrow> store \<Rightarrow> string \<Rightarrow> parsed
    \<Rightarrow> response \<times> store" where
  "route_delete verify token doc ident parsed =
    (case parsed of
       Inl code \<Rightarrow> (BodyError code, doc)
     | Inr body \<Rightarrow>
        (case requireAuth verify token of
           Some r \<Rightarrow> (r, doc)
         | None \<Rightarrow> delete_project doc ident))"

section \<open>Detail page: GET /project/:id\<close>

text \<open>\<^verbatim>\<open>s.replace(/c/g, r)\<close> for a single character \<open>c\<close>.\<close>

definition replaceAll :: "char \<Rightarrow> string \<Rightarrow> string \<Rightarrow> string" where
  "replaceAll c r s = concat (map (\<lambda>x. if x = c then r else [x]) s)"

text \<open>
  \<^verbatim>\<open>
  const safe = (s) =>
    String(s || "").replace(/&/g, "&amp;").replace(/</g, "&lt;").replace(/>/g, "&gt;");
  \<close>
\<close>

definition escape :: "string \<Rightarrow> string" where
  "escape s =
    replaceAll CHR ''>'' ''&gt;'' (replaceAll CHR ''<'' ''&lt;'' (replaceAll CHR ''&'' ''&amp;'' s))"

definition safe :: "jv option \<Rightarrow> exn + string" where
  "safe v =
    (case js_or v (Some (JStr [])) of
       Some w \<Rightarrow> (case to_string w of None \<Rightarrow> Inl TypeError | Some s \<Rightarrow> Inr (escape s))
     | None \<Rightarrow> Inr [])"

definition bindE :: "exn + 'a \<Rightarrow> ('a \<Rightarrow> exn + 'b) \<Rightarrow> exn + 'b" where
  "bindE m f = (case m of Inl e \<Rightarrow> Inl e | Inr x \<Rightarrow> f x)"

text \<open>\<^verbatim>\<open>(item.outcomes || []).map((o) => `<li>${safe(o)}</li>`).join("")\<close>\<close>

fun listItems :: "jv list \<Rightarrow> exn + string" where
  "listItems [] = Inr []"
| "listItems (x # xs) =
    bindE (safe (Some x)) (\<lambda>s. bindE (listItems xs) (\<lambda>r. Inr (''<li>'' @ s @ ''</li>'' @ r)))"

definition outcomesHtml :: "obj \<Rightarrow> exn + string" where
  "outcomesHtml item =
    (case js_or (map_of item ''outcomes'') (Some (JArr [])) of
       Some (JArr os) \<Rightarrow> listItems os
     | _ \<Rightarrow> Inl TypeError)"

text \<open>\<^verbatim>\<open>images[0]\<close> for \<^verbatim>\<open>images = item.images || []\<close>\<close>

definition firstOf :: "jv \<Rightarrow> jv option" where
  "firstOf images =
    (case images of
       JArr xs \<Rightarrow> (case xs of [] \<Rightarrow> None | x # _ \<Rightarrow> Some x)
     | JStr s \<Rightarrow> (case s of [] \<Rightarrow> None | c # _ \<Rightarrow> Some (JStr [c]))
     | JObj kvs \<Rightarrow> map_of kvs ''0''
     | _ \<Rightarrow> None)"

text \<open>
  \<^verbatim>\<open>src="${primary ? "/" + safe(primary) : "/assets/images/placeholder.png"}"\<close>
\<close>

definition imageSrc :: "obj \<Rightarrow> exn + string" where
  "imageSrc item =
    (let images = (case js_or (map_of item ''images'') (Some (JArr [])) of
                     Some v \<Rightarrow> v | None \<Rightarrow> JArr []);
         primary = js_or (firstOf images) (Some (JStr []))
     in if truthy primary then bindE (safe primary) (\<lambda>s. Inr (''/'' @ s))
        else Inr ''/assets/images/placeholder.png'')"

text \<open>
  The page is one template literal. \<open>tpl k\<close> is its \<open>k\<close>-th piece of fixed
  text, in order, and \<open>stringify\<close> stands for \<^verbatim>\<open>JSON.stringify\<close>. The
  interpolations are, in order: the title (in \<^verbatim>\<open><title>\<close>), the title (in
  \<^verbatim>\<open><h1>\<close>), the image source, the date, the summary, the list of leaders,
  the purpose, the results, and the serialised image list.
\<close>

definition render :: "(nat \<Rightarrow> string) \<Rightarrow> (jv \<Rightarrow> string) \<Rightarrow> obj \<Rightarrow> exn + string" where
  "render tpl stringify item =
    bindE (outcomesHtml item) (\<lambda>leaders.
    bindE (safe (map_of item ''title'')) (\<lambda>title1.
    bindE (safe (map_of item ''title'')) (\<lambda>title2.
    bindE (imageSrc item) (\<lambda>src.
    bindE (safe (js_or (map_of item ''date'') (Some (JStr [])))) (\<lambda>date.
    bindE (safe (map_of item ''summary'')) (\<lambda>summary.
    bindE (safe (js_or (map_of item ''purpose'') (Some (JStr [])))) (\<lambda>purpose.
    bindE (safe (js_or (map_of item ''results'') (Some (JStr [])))) (\<lambda>results.
      Inr (tpl 0 @ title1 @ tpl 1 @ title2 @ tpl 2 @ src @ tpl 3 @ date @ tpl 4 @ summary
           @ tpl 5 @ leaders @ tpl 6 @ purpose @ tpl 7 @ results @ tpl 8
           @ stringify (case js_or (map_of item ''images'') (Some (JArr [])) of
                          Some v \<Rightarrow> v | None \<Rightarrow> JArr [])
           @ tpl 9)))))))))"

definition get_page :: "(nat \<Rightarrow> string) \<Rightarrow> (jv \<Rightarrow> string) \<Rightarrow> store \<Rightarrow> string \<Rightarrow> response" where
  "get_page tpl stringify doc ident =
    (let list = readProjects doc
     in case find_id ident list of
          None \<Rightarrow> NotFoundText
        | Some idx \<Rightarrow>
           (case render tpl stringify (list ! idx) of
              Inl e \<Rightarrow> ServerError
            | Inr html \<Rightarrow> Html html))"

section \<open>The image operations as the specification words them\<close>

text \<open>
  A reference is removed when it equals the identifier or ends with it; only
  the first such reference goes, and the others keep their order.
\<close>

definition refers :: "string \<Rightarrow> string \<Rightarrow> bool" where
  "refers ident img = (img = ident \<or> suffix ident img)"

definition drop_first :: "('a \<Rightarrow> bool) \<Rightarrow> 'a list \<Rightarrow> 'a list" where
  "drop_first P xs = takeWhile (\<lambda>x. \<not> P x) xs @ tl (dropWhile (\<lambda>x. \<not> P x) xs)"

definition removed_images :: "string list \<Rightarrow> string list \<Rightarrow> string list" where
  "removed_images idents imgs = foldl (\<lambda>acc ident. drop_first (refers ident) acc) imgs idents"

text \<open>New uploads are appended in upload order.\<close>

definition appended_images :: "string list \<Rightarrow> string list \<Rightarrow> string list" where
  "appended_images filenames imgs = imgs @ map webPath filenames"

text \<open>
  Make-primary: a numeric index in range, or else the first reference the
  identifier refers to; an entry resolved at an index above 0 moves to the
  front and the others shift down by one.
\<close>

definition first_index :: "('a \<Rightarrow> bool) \<Rightarrow> 'a list \<Rightarrow> nat option" where
  "first_index P xs =
    (if list_ex P xs then Some (length (takeWhile (\<lambda>x. \<not> P x) xs)) else None)"

definition read_as_index :: "string \<Rightarrow> 'a list \<Rightarrow> bool" where
  "read_as_index mp imgs =
    (case parseInt10 mp of Some n \<Rightarrow> 0 \<le> n \<and> n < int (length imgs) | None \<Rightarrow> False)"

definition resolve :: "string \<Rightarrow> string list \<Rightarrow> nat option" where
  "resolve mp imgs =
    (case parseInt10 mp of
       Some i \<Rightarrow> if 0 \<le> i \<and> i < int (length imgs) then Some (nat i)
                 else first_index (refers mp) imgs
     | None \<Rightarrow> first_index (refers mp) imgs)"

definition to_front :: "nat \<Rightarrow> 'a list \<Rightarrow> 'a list" where
  "to_front i xs = xs ! i # (take i xs @ drop (Suc i) xs)"

definition primary_images :: "string \<Rightarrow> string list \<Rightarrow> string list" where
  "primary_images mp imgs =
    (case resolve mp imgs of
       Some i \<Rightarrow> if 0 < i then to_front i imgs else imgs
     | None \<Rightarrow> imgs)"

text \<open>
  The three steps of one update, in the order the specification gives:
  remove, then append the new uploads, then make primary. \<open>uploads\<close> is the
  list of stored file names of the request, empty when it carries none.
\<close>

definition uploads :: "string list option \<Rightarrow> string list" where
  "uploads files = (case files of Some fs \<Rightarrow> fs | None \<Rightarrow> [])"

definition updated_images ::
  "string list \<Rightarrow> string list \<Rightarrow> string option \<Rightarrow> string list \<Rightarrow> string list" where
  "updated_images idents filenames primary imgs =
    (let after_remove = removed_images idents imgs;
         after_append = appended_images filenames after_remove
     in case primary of
          None \<Rightarrow> after_append
        | Some mp \<Rightarrow> primary_images mp after_append)"

section \<open>The listing order as the specification words it\<close>

text \<open>
  The key of a record is the time of its \<open>date\<close>, and the time of its
  \<open>createdAt\<close> when the \<open>date\<close> is absent or does not parse.
\<close>

definition fieldTime :: "(string \<Rightarrow> int option) \<Rightarrow> jv option \<Rightarrow> int option" where
  "fieldTime parse v = (case v of Some (JStr s) \<Rightarrow> parse s | _ \<Rightarrow> None)"

definition spec_sortKey :: "(string \<Rightarrow> int option) \<Rightarrow> obj \<Rightarrow> int option" where
  "spec_sortKey parse a =
    (case fieldTime parse (map_of a ''date'') of
       Some t \<Rightarrow> Some t
     | None \<Rightarrow> fieldTime parse (map_of a ''createdAt''))"

text \<open>Newest first: each key is a time, and no later key follows an earlier one.\<close>

fun newer_eq :: "int option \<Rightarrow> int option \<Rightarrow> bool" where
  "newer_eq (Some x) (Some y) = (y \<le> x)"
| "newer_eq x y = False"

definition newest_first :: "int option list \<Rightarrow> bool" where
  "newest_first keys = sorted_wrt newer_eq keys"

text \<open>
  The key the comparator computes for a record, \<open>None\<close> when it is no time
  (or when computing it throws).
\<close>

definition code_sortKey :: "(string \<Rightarrow> int option) \<Rightarrow> obj \<Rightarrow> int option" where
  "code_sortKey parse a = (case sortKey parse a of Inr k \<Rightarrow> k | Inl e \<Rightarrow> None)"

section \<open>Escaping as the specification words it\<close>

text \<open>
  Each of the characters \<^verbatim>\<open>&\<close>, \<^verbatim>\<open><\<close> and \<^verbatim>\<open>>\<close> of a text becomes its HTML
  entity, and every other character stays. \<open>text_of\<close> is the text of a field
  value: \<^verbatim>\<open>String(s || "")\<close>, \<open>None\<close> when the conversion throws.
\<close>

definition html_entity :: "char \<Rightarrow> string" where
  "html_entity c =
    (if c = CHR ''&'' then ''&amp;''
     else if c = CHR ''<'' then ''&lt;''
     else if c = CHR ''>'' then ''&gt;''
     else [c])"

definition entities :: "string \<Rightarrow> string" where
  "entities s = concat (map html_entity s)"

definition text_of :: "jv option \<Rightarrow> string option" where
  "text_of v = (case js_or v (Some (JStr [])) of Some w \<Rightarrow> to_string w | None \<Rightarrow> Some [])"

section \<open>Legacy image migration on load\<close>

lemma migrate_legacy:
  assumes "map_of p ''image'' = Some img" and "truthy (Some img)" and "\<not> isArray img"
    and "\<not> truthy (map_of p ''images'')"
  shows "map_of (migrate p) ''images'' = Some (JArr [img]) \<and> map_of (migrate p) ''image'' = None"
  using assms
  by (simp add: migrate_def Let_def js_or_def AList.update_conv' AList.delete_conv')

lemma migrate_legacy_array:
  assumes "map_of p ''image'' = Some (JArr xs)" and "\<not> truthy (map_of p ''images'')"
  shows "map_of (migrate p) ''images'' = Some (JArr xs) \<and> map_of (migrate p) ''image'' = None"
  using assms
  by (simp add: migrate_def Let_def js_or_def AList.update_conv' AList.delete_conv')

lemma migrate_default:
  assumes "\<not> truthy (map_of p ''image'')" and "\<not> truthy (map_of p ''images'')"
  shows "map_of (migrate p) ''images'' = Some (JArr [])
       \<and> map_of (migrate p) ''image'' = map_of p ''image''"
  using assms
  by (simp add: migrate_def Let_def js_or_def AList.update_conv')

text \<open>
  C4, as stated, fails: a record whose legacy \<open>image\<close> is the empty string and
  that has no \<open>images\<close> comes out of the load with an empty \<open>images\<close> list, not a
  one-element list, and still has its \<open>image\<close> field. The guard
  \<^verbatim>\<open>p.image && !p.images\<close> tests truthiness, not presence.
\<close>

theorem migrate_empty_image_counterexample:
  "readProjects (Some [[(''id'', JStr ''p1''), (''image'', JStr [])]])
     = [[(''id'', JStr ''p1''), (''image'', JStr []), (''images'', JArr [])]]
   \<and> map_of (migrate [(''id'', JStr ''p1''), (''image'', JStr [])]) ''images'' \<noteq> Some (JArr [JStr []])
   \<and> map_of (migrate [(''id'', JStr ''p1''), (''image'', JStr [])]) ''image'' \<noteq> None"
  by (simp add: readProjects_def migrate_def js_or_def)

text \<open>
  C4, amended: for every persisted record whose \<open>image\<close> is truthy (not empty)
  and not an array, and whose \<open>images\<close> is absent (or falsy), one load gives an
  \<open>images\<close> list of exactly that one value and removes the \<open>image\<close> field; an
  array-valued \<open>image\<close> becomes the \<open>images\<close> list as it is; and for every record
  with neither a truthy \<open>image\<close> nor a truthy \<open>images\<close>, \<open>images\<close> is the empty
  list and a falsy \<open>image\<close> field stays as it is. The load keeps the number and
  the order of the records.
\<close>

theorem readProjects_legacy_image:
  assumes "i < length rs"
  shows "length (readProjects (Some rs)) = length rs
       \<and> (\<forall>img. map_of (rs ! i) ''image'' = Some img \<and> truthy (Some img) \<and> \<not> isArray img
              \<and> \<not> truthy (map_of (rs ! i) ''images'')
            \<longrightarrow> map_of (readProjects (Some rs) ! i) ''images'' = Some (JArr [img])
                \<and> map_of (readProjects (Some rs) ! i) ''image'' = None)
       \<and> (\<forall>xs. map_of (rs ! i) ''image'' = Some (JArr xs) \<and> \<not> truthy (map_of (rs ! i) ''images'')
            \<longrightarrow> map_of (readProjects (Some rs) ! i) ''images'' = Some (JArr xs)
                \<and> map_of (readProjects (Some rs) ! i) ''image'' = None)
       \<and> (\<not> truthy (map_of (rs ! i) ''image'') \<and> \<not> truthy (map_of (rs ! i) ''images'')
            \<longrightarrow> map_of (readProjects (Some rs) ! i) ''images'' = Some (JArr [])
                \<and> map_of (readProjects (Some rs) ! i) ''image'' = map_of (rs ! i) ''image'')"
  using assms migrate_legacy [of "rs ! i"] migrate_legacy_array [of "rs ! i"]
    migrate_default [of "rs ! i"]
  by (simp add: readProjects_def)

theorem readProjects_legacy_image_witness:
  "(0::nat) < length [[(''id'', JStr ''p1''), (''image'', JStr ''a.jpg'')], [(''id'', JStr ''p2'')]]
   \<and> truthy (Some (JStr ''a.jpg'')) \<and> \<not> isArray (JStr ''a.jpg'')
   \<and> map_of (readProjects (Some [[(''id'', JStr ''p1''), (''image'', JStr ''a.jpg'')],
                                   [(''id'', JStr ''p2'')]]) ! 0) ''images''
       = Some (JArr [JStr ''a.jpg''])
   \<and> map_of (readProjects (Some [[(''id'', JStr ''p1''), (''image'', JStr ''a.jpg'')],
                                   [(''id'', JStr ''p2'')]]) ! 0) ''image'' = None
   \<and> map_of (readProjects (Some [[(''id'', JStr ''p1''), (''image'', JStr ''a.jpg'')],
                                   [(''id'', JStr ''p2'')]]) ! 1) ''images'' = Some (JArr [])"
  using readProjects_legacy_image
      [of 0 "[[(''id'', JStr ''p1''), (''image'', JStr ''a.jpg'')], [(''id'', JStr ''p2'')]]"]
    readProjects_legacy_image
      [of 1 "[[(''id'', JStr ''p1''), (''image'', JStr ''a.jpg'')], [(''id'', JStr ''p2'')]]"]
  by simp

section \<open>The auth gate in front of the mutating routes\<close>

text \<open>
  C3, as stated, fails: the body parsers are mounted before the gate, so a
  request to a mutating endpoint that carries no session cookie and a body
  they reject (malformed JSON) is answered with the parser's status 400, not
  with 401. The store document stays as it was.
\<close>

theorem gate_after_body_parsers_counterexample:
  "route_delete (\<lambda>t. t = ''good'') None (Some [[(''id'', JStr ''p1'')]]) ''p1'' (Inl 400)
     = (BodyError 400, Some [[(''id'', JStr ''p1'')]])
   \<and> status (BodyError 400) \<noteq> 401"
  by (simp add: route_delete_def)

text \<open>
  C3, amended: for every request to POST, PUT or DELETE whose body the body
  parsers accept, and that carries no session cookie, an empty one, or a
  token that \<^verbatim>\<open>jwt.verify\<close> rejects, the answer is 401; for every such request,
  and for every request the body parsers reject, the store document stays as
  it was. With a token that verifies and an accepted body, DELETE gives what
  its handler gives, and POST and PUT go on to the upload middleware: when it
  accepts the form (at most 10 files), the route gives what the handler gives
  on the fields and files it hands over, and otherwise the answer is 500 and
  the store document stays as it was.
\<close>

theorem mutating_routes_gate:
  "((token = None \<or> token = Some [] \<or> (\<exists>t. token = Some t \<and> \<not> verify t))
      \<longrightarrow> route_post verify token uuid now doc (Inr body) up = (Unauthorized, doc)
        \<and> route_put verify token json_parse doc ident (Inr body) up = Some (Unauthorized, doc)
        \<and> route_delete verify token doc ident (Inr body) = (Unauthorized, doc)
        \<and> status Unauthorized = 401)
   \<and> route_post verify token uuid now doc (Inl code) up = (BodyError code, doc)
   \<and> route_put verify token json_parse doc ident (Inl code) up = Some (BodyError code, doc)
   \<and> route_delete verify token doc ident (Inl code) = (BodyError code, doc)
   \<and> ((\<exists>t. token = Some t \<and> t \<noteq> [] \<and> verify t)
      \<longrightarrow> route_delete verify token doc ident (Inr body) = delete_project doc ident
        \<and> (\<forall>fields files. upload_array 10 up body = Some (fields, files)
              \<longrightarrow> route_post verify token uuid now doc (Inr body) up
                    = post_project uuid now doc fields files
                \<and> route_put verify token json_parse doc ident (Inr body) up
                    = put_project json_parse doc ident fields files)
        \<and> (upload_array 10 up body = None
              \<longrightarrow> route_post verify token uuid now doc (Inr body) up = (ServerError, doc)
                \<and> route_put verify token json_parse doc ident (Inr body) up
                    = Some (ServerError, doc)))
   \<and> upload_array 10 NotMultipart body = Some (body, None)
   \<and> (\<forall>fields filenames. upload_array 10 (Multipart fields filenames) body
          = (if 10 < length filenames then None else Some (fields, Some filenames)))"
  by (auto simp: route_post_def route_put_def route_delete_def requireAuth_def
      upload_array_def)

theorem mutating_routes_gate_witness:
  "route_delete (\<lambda>t. t = ''good'') (Some ''forged'') (Some [[(''id'', JStr ''p1'')]]) ''p1''
       (Inr [])
     = (Unauthorized, Some [[(''id'', JStr ''p1'')]])
   \<and> route_delete (\<lambda>t. t = ''good'') None (Some [[(''id'', JStr ''p1'')]]) ''p1'' (Inr [])
     = (Unauthorized, Some [[(''id'', JStr ''p1'')]])
   \<and> route_delete (\<lambda>t. t = ''good'') (Some ''good'') (Some [[(''id'', JStr ''p1'')]]) ''p1''
       (Inr [])
     = (OkDeleted [(''id'', JStr ''p1''), (''images'', JArr [])], Some [])
   \<and> route_post (\<lambda>t. t = ''good'') (Some ''good'') ''u1'' ''2024-01-02'' (Some []) (Inr [])
       (Multipart [] [''f1'', ''f2'', ''f3'', ''f4'', ''f5'', ''f6'', ''f7'', ''f8'', ''f9'',
                      ''f10'', ''f11''])
     = (ServerError, Some [])
   \<and> route_post (\<lambda>t. t = ''good'') (Some ''good'') ''u1'' ''2024-01-02'' (Some []) (Inr [])
       (Multipart [] [])
     = (BadRequest, Some [])"
  using mutating_routes_gate [of "Some ''forged''" "\<lambda>t. t = ''good''" "''u1''" "''2024-01-02''"
      "Some [[(''id'', JStr ''p1'')]]" "[]" NotMultipart "\<lambda>s. None" "''p1''" 400]
    mutating_routes_gate [of None "\<lambda>t. t = ''good''" "''u1''" "''2024-01-02''"
      "Some [[(''id'', JStr ''p1'')]]" "[]" NotMultipart "\<lambda>s. None" "''p1''" 400]
    mutating_routes_gate [of "Some ''good''" "\<lambda>t. t = ''good''" "''u1''" "''2024-01-02''"
      "Some [[(''id'', JStr ''p1'')]]" "[]" NotMultipart "\<lambda>s. None" "''p1''" 400]
    mutating_routes_gate [of "Some ''good''" "\<lambda>t. t = ''good''" "''u1''" "''2024-01-02''"
      "Some []" "[]"
      "Multipart [] [''f1'', ''f2'', ''f3'', ''f4'', ''f5'', ''f6'', ''f7'', ''f8'', ''f9'',
                     ''f10'', ''f11'']" "\<lambda>s. None" "''p1''" 400]
    mutating_routes_gate [of "Some ''good''" "\<lambda>t. t = ''good''" "''u1''" "''2024-01-02''"
      "Some []" "[]" "Multipart [] []" "\<lambda>s. None" "''p1''" 400]
  by (simp add: delete_project_def readProjects_def migrate_def js_or_def find_id_def
      cleanup_throws_def writeProjects_def upload_array_def post_project_def)

section \<open>Validation on create\<close>

lemma post_project_missing:
  assumes "\<not> truthy (map_of body ''title'') \<or> \<not> truthy (map_of body ''summary'')
        \<or> \<not> truthy (map_of body ''date'') \<or> \<not> truthy (map_of body ''results'')"
  shows "post_project uuid now doc body files = (BadRequest, doc)"
  using assms by (auto simp: post_project_def)

lemma post_project_created:
  assumes "map_of body ''title'' = Some (JStr t)" and "t \<noteq> []"
    and "map_of body ''summary'' = Some (JStr sm)" and "sm \<noteq> []"
    and "map_of body ''date'' = Some (JStr d)" and "d \<noteq> []"
    and "map_of body ''results'' = Some (JStr r)" and "r \<noteq> []"
    and "js_or (map_of body ''outcomes'') (Some (JStr [])) = Some (JStr oc)"
  shows "\<exists>item. post_project uuid now doc body files
            = (OkProject item, Some (readProjects doc @ [item]))
          \<and> map_of item ''id'' = Some (JStr uuid)
          \<and> map_of item ''title'' = Some (JStr t)
          \<and> map_of item ''summary'' = Some (JStr sm)
          \<and> map_of item ''date'' = Some (JStr d)
          \<and> map_of item ''results'' = Some (JStr r)
          \<and> map_of item ''outcomes'' = Some (JArr (map JStr (split_trim CHR 0x0A oc)))
          \<and> map_of item ''images''
              = Some (JArr (map (\<lambda>f. JStr (webPath f)) (case files of Some fs \<Rightarrow> fs | None \<Rightarrow> [])))
          \<and> map_of item ''createdAt'' = Some (JStr now)"
  using assms by (simp add: post_project_def Let_def writeProjects_def)

text \<open>
  C7 holds on every request whose \<open>outcomes\<close> is absent, empty or a string
  (the two lemmas above). It fails where \<open>outcomes\<close> is a truthy value that is
  no string, such as the array that a JSON body or a repeated form field
  gives: all four required fields are there, yet \<^verbatim>\<open>(outcomes || "").split\<close>
  throws, the answer is 500 and no record is stored. The update handler
  guards the same field with \<^verbatim>\<open>typeof outcomes === "string"\<close>.
\<close>

theorem post_outcomes_array_fails:
  "route_post (\<lambda>t. t = ''good'') (Some ''good'') ''u1'' ''2024-01-02T00:00:00.000Z'' (Some [])
     (Inr [(''title'', JStr ''Reef''), (''summary'', JStr ''s''), (''date'', JStr ''2024-01-01''),
           (''results'', JStr ''r''), (''outcomes'', JArr [JStr ''Dr. A'', JStr ''Dr. B''])])
     NotMultipart
   = (ServerError, Some [])
   \<and> route_post (\<lambda>t. t = ''good'') (Some ''good'') ''u1'' ''2024-01-02T00:00:00.000Z'' (Some [])
     (Inr [])
     (Multipart
        [(''title'', JStr ''Reef''), (''summary'', JStr ''s''), (''date'', JStr ''2024-01-01''),
         (''results'', JStr ''r''), (''outcomes'', JArr [JStr ''Dr. A'', JStr ''Dr. B''])] [])
   = (ServerError, Some [])"
  by (simp add: route_post_def requireAuth_def upload_array_def post_project_def js_or_def
      readProjects_def)

section \<open>The image steps of an update, on a record whose references are strings\<close>

text \<open>
  The handler works on parsed values and may throw; on a record whose \<open>images\<close>
  is an array of strings, and for identifiers that have a string conversion,
  each step returns and computes the list operation of the specification.
\<close>

lemma matches_string:
  assumes "to_string rem = Some r"
  shows "matches rem (JStr img) = Inr (refers r img)"
proof (cases "strict_eq (JStr img) rem")
  case True
  then have "rem = JStr img" by (cases rem) auto
  with assms have "r = img" by simp
  with True show ?thesis by (simp add: matches_def refers_def)
next
  case False
  have "img = r \<Longrightarrow> suffix r img" by simp
  with False assms show ?thesis by (auto simp: matches_def refers_def)
qed

lemma findIndex_pure:
  assumes "\<And>x. x \<in> set xs \<Longrightarrow> f (g x) = Inr (P x)"
  shows "findIndex f (map g xs) = Inr (first_index P xs)"
  using assms by (induction xs) (auto simp: first_index_def)

lemma findIndex_matches:
  assumes "to_string rem = Some r"
  shows "findIndex (matches rem) (map JStr imgs) = Inr (first_index (refers r) imgs)"
  by (rule findIndex_pure) (simp add: matches_string [OF assms])

lemma first_index_None:
  assumes "first_index P xs = None"
  shows "drop_first P xs = xs"
proof -
  from assms have "\<forall>x\<in>set xs. \<not> P x"
    by (auto simp: first_index_def list_ex_iff split: if_splits)
  then have tw: "takeWhile (\<lambda>x. \<not> P x) xs = xs" and dw: "dropWhile (\<lambda>x. \<not> P x) xs = []"
    by simp_all
  show ?thesis unfolding drop_first_def tw dw by simp
qed

lemma takeWhile_stop:
  "list_ex P xs \<Longrightarrow>
     length (takeWhile (\<lambda>x. \<not> P x) xs) < length xs \<and> P (xs ! length (takeWhile (\<lambda>x. \<not> P x) xs))"
  by (induction xs) auto

lemma takeWhile_before:
  "j < length (takeWhile (\<lambda>x. \<not> P x) xs) \<Longrightarrow> \<not> P (xs ! j)"
proof (induction xs arbitrary: j)
  case Nil
  then show ?case by simp
next
  case (Cons x xs)
  then show ?case by (cases j) (auto split: if_splits)
qed

lemma first_index_Some:
  assumes "first_index P xs = Some i"
  shows "i < length xs \<and> P (xs ! i) \<and> take i xs @ drop (Suc i) xs = drop_first P xs
     \<and> (\<forall>j < i. \<not> P (xs ! j))"
proof -
  from assms have ex: "list_ex P xs" and i: "i = length (takeWhile (\<lambda>x. \<not> P x) xs)"
    by (auto simp: first_index_def split: if_splits)
  have "i < length xs \<and> P (xs ! i)"
    unfolding i using ex by (rule takeWhile_stop)
  moreover have "take i xs = takeWhile (\<lambda>x. \<not> P x) xs"
    unfolding i by (rule takeWhile_eq_take [symmetric])
  moreover have "drop (Suc i) xs = tl (dropWhile (\<lambda>x. \<not> P x) xs)"
    unfolding i by (simp add: dropWhile_eq_drop drop_Suc tl_drop)
  moreover have "\<forall>j < i. \<not> P (xs ! j)"
    unfolding i using takeWhile_before [of _ P xs] by blast
  ultimately show ?thesis by (simp add: drop_first_def)
qed


lemma drop_first_no_match:
  assumes "\<forall>x\<in>set xs. \<not> P x"
  shows "drop_first P xs = xs"
  using assms by (intro first_index_None) (simp add: first_index_def list_ex_iff)

lemma drop_first_first_match:
  assumes "\<forall>y\<in>set pre. \<not> P y" and "P x"
  shows "drop_first P (pre @ x # post) = pre @ post"
  using assms by (simp add: drop_first_def takeWhile_append2 dropWhile_append2)

lemma remove_one_strings:
  assumes "map_of p ''images'' = Some (JArr (map JStr imgs))" and "to_string rem = Some r"
  shows "remove_one rem p
    = Inr (AList.update ''images'' (JArr (map JStr (drop_first (refers r) imgs))) p)"
proof (cases "first_index (refers r) imgs")
  case None
  with assms show ?thesis
    by (simp add: remove_one_def js_or_def findIndex_matches first_index_None AList.update_triv)
next
  case (Some i)
  from first_index_Some [OF Some]
  have "i < length imgs" and "take i imgs @ drop (Suc i) imgs = drop_first (refers r) imgs"
    by simp_all
  then have "take i (map JStr imgs) @ drop (Suc i) (map JStr imgs)
      = map JStr (drop_first (refers r) imgs)" and "map JStr imgs ! i = JStr (imgs ! i)"
    by (simp_all add: take_map drop_map flip: map_append)
  with assms Some show ?thesis
    by (simp add: remove_one_def js_or_def findIndex_matches)
qed

lemma remove_each_strings:
  assumes "map_of p ''images'' = Some (JArr (map JStr imgs))"
    and "map to_string rl = map Some idents"
  shows "remove_each rl p
    = Inr (AList.update ''images'' (JArr (map JStr (removed_images idents imgs))) p)"
  using assms
proof (induction rl arbitrary: p imgs idents)
  case Nil
  then show ?case by (simp add: removed_images_def AList.update_triv)
next
  case (Cons rem rest)
  from Cons.prems(2) obtain r rs where idents: "idents = r # rs"
    and r: "to_string rem = Some r" and rs: "map to_string rest = map Some rs"
    by (cases idents) auto
  let ?p' = "AList.update ''images'' (JArr (map JStr (drop_first (refers r) imgs))) p"
  have one: "remove_one rem p = Inr ?p'"
    by (rule remove_one_strings [OF Cons.prems(1) r])
  have "map_of ?p' ''images'' = Some (JArr (map JStr (drop_first (refers r) imgs)))"
    by (simp add: AList.update_conv')
  from Cons.IH [OF this rs] one show ?case
    by (simp add: idents removed_images_def)
qed

lemma append_block_strings:
  assumes "map_of p ''images'' = Some (JArr (map JStr imgs))"
  shows "append_block files p
    = Inr (AList.update ''images''
        (JArr (map JStr (appended_images (uploads files) imgs))) p)"
  using assms
  by (cases files) (simp_all add: append_block_def appended_images_def js_or_def
      AList.update_triv comp_def uploads_def)

lemma targetIndex_strings:
  assumes "to_string mp = Some s"
  shows "targetIndex (parseInt10 s) mp (map JStr imgs)
    = Inr (case resolve s imgs of Some i \<Rightarrow> int i | None \<Rightarrow> - 1)"
proof (cases "parseInt10 s")
  case None
  with assms show ?thesis
    by (simp add: targetIndex_def resolve_def findIndex_matches split: option.splits)
next
  case (Some i)
  with assms show ?thesis
    by (simp add: targetIndex_def resolve_def findIndex_matches split: option.splits)
qed

lemma moveToFront_strings:
  assumes "i < length imgs" and "0 < i"
  shows "moveToFront (int i) (map JStr imgs) = map JStr (to_front i imgs)"
  using assms by (simp add: moveToFront_def to_front_def take_map drop_map)

lemma resolve_less: "resolve s imgs = Some i \<Longrightarrow> i < length imgs"
  using first_index_Some [of "refers s" imgs i]
  by (auto simp: resolve_def split: option.splits if_splits)

lemma primary_block_strings:
  assumes "map_of p ''images'' = Some (JArr (map JStr imgs))"
    and "map_of body ''makePrimary'' = Some mp" and "truthy (Some mp)"
    and "to_string mp = Some s"
  shows "primary_block body p
    = Some (Inr (AList.update ''images'' (JArr (map JStr (primary_images s imgs))) p))"
proof (cases "resolve s imgs")
  case None
  with assms show ?thesis
    by (simp add: primary_block_def targetIndex_strings primary_images_def AList.update_triv)
next
  case (Some i)
  then have "i < length imgs" by (rule resolve_less)
  with assms Some show ?thesis
    by (simp add: primary_block_def targetIndex_strings primary_images_def AList.update_triv
        moveToFront_strings)
qed

lemma primary_block_absent:
  assumes "\<not> truthy (map_of body ''makePrimary'')"
  shows "primary_block body p = Some (Inr p)"
  using assms by (simp add: primary_block_def)

lemma set_if_string_other:
  "k \<noteq> k' \<Longrightarrow> map_of (set_if_string k body p) k' = map_of p k'"
  by (simp add: set_if_string_def AList.update_conv' split: option.splits jv.splits)

lemma set_outcomes_other:
  "k' \<noteq> ''outcomes'' \<Longrightarrow> map_of (set_outcomes body p) k' = map_of p k'"
  by (simp add: set_outcomes_def AList.update_conv' split: option.splits jv.splits)

lemma update_fields_images:
  "map_of (update_fields body p) ''images'' = map_of p ''images''"
  by (simp add: update_fields_def set_if_string_other set_outcomes_other)

text \<open>The block that makes the removal list, and the whole handler.\<close>

lemma remove_block_strings:
  assumes "map_of p ''images'' = Some (JArr (map JStr imgs))"
    and "if truthy (map_of body ''removeImages'')
         then \<exists>v rl. map_of body ''removeImages'' = Some v
                \<and> removeList_of json_parse v = Inr rl \<and> map to_string rl = map Some idents
         else idents = []"
  shows "remove_block json_parse body p
    = Inr (AList.update ''images'' (JArr (map JStr (removed_images idents imgs))) p)"
proof (cases "truthy (map_of body ''removeImages'')")
  case True
  with assms(2) obtain v rl where "map_of body ''removeImages'' = Some v"
    and "removeList_of json_parse v = Inr rl" and rl: "map to_string rl = map Some idents"
    by auto
  with True remove_each_strings [OF assms(1) rl] show ?thesis
    by (simp add: remove_block_def)
next
  case False
  with assms show ?thesis
    by (simp add: remove_block_def removed_images_def AList.update_triv)
qed

lemma primary_block_general:
  assumes "map_of p ''images'' = Some (JArr (map JStr imgs))"
    and "if truthy (map_of body ''makePrimary'')
         then \<exists>mp s. map_of body ''makePrimary'' = Some mp \<and> to_string mp = Some s
                \<and> primary = Some s
         else primary = None"
  shows "primary_block body p
    = Some (Inr (AList.update ''images''
        (JArr (map JStr (case primary of None \<Rightarrow> imgs | Some s \<Rightarrow> primary_images s imgs))) p))"
proof (cases "truthy (map_of body ''makePrimary'')")
  case True
  with assms(2) obtain mp s where mp: "map_of body ''makePrimary'' = Some mp"
    and s: "to_string mp = Some s" and pr: "primary = Some s"
    by auto
  from True mp have "truthy (Some mp)" by simp
  from primary_block_strings [OF assms(1) mp this s] pr show ?thesis by simp
next
  case False
  with assms show ?thesis
    by (simp add: primary_block_absent AList.update_triv)
qed

lemma put_record_strings:
  assumes imgs: "map_of p ''images'' = Some (JArr (map JStr imgs))"
    and rm: "if truthy (map_of body ''removeImages'')
         then \<exists>v rl. map_of body ''removeImages'' = Some v
                \<and> removeList_of json_parse v = Inr rl \<and> map to_string rl = map Some idents
         else idents = []"
    and mp: "if truthy (map_of body ''makePrimary'')
         then \<exists>mp s. map_of body ''makePrimary'' = Some mp \<and> to_string mp = Some s
                \<and> primary = Some s
         else primary = None"
  shows "put_record json_parse body files p
    = Some (Inr (AList.update ''images''
        (JArr (map JStr (updated_images idents (uploads files) primary imgs)))
        (update_fields body p)))"
proof -
  let ?p0 = "update_fields body p"
  let ?i1 = "removed_images idents imgs"
  let ?p1 = "AList.update ''images'' (JArr (map JStr ?i1)) ?p0"
  let ?i2 = "appended_images (uploads files) ?i1"
  let ?p2 = "AList.update ''images'' (JArr (map JStr ?i2)) ?p1"
  have p0: "map_of ?p0 ''images'' = Some (JArr (map JStr imgs))"
    by (simp add: update_fields_images imgs)
  have r: "remove_block json_parse body ?p0 = Inr ?p1"
    by (rule remove_block_strings [OF p0 rm])
  have p1: "map_of ?p1 ''images'' = Some (JArr (map JStr ?i1))"
    by (simp add: AList.update_conv')
  have a: "append_block files ?p1 = Inr ?p2"
    by (rule append_block_strings [OF p1])
  have p2: "map_of ?p2 ''images'' = Some (JArr (map JStr ?i2))"
    by (simp add: AList.update_conv')
  from primary_block_general [OF p2 mp] r a show ?thesis
    by (simp add: put_record_def updated_images_def Let_def)
qed

lemma put_project_strings:
  assumes found: "find_id ident (readProjects doc) = Some i"
    and imgs: "map_of (readProjects doc ! i) ''images'' = Some (JArr (map JStr imgs))"
    and rm: "if truthy (map_of body ''removeImages'')
         then \<exists>v rl. map_of body ''removeImages'' = Some v
                \<and> removeList_of json_parse v = Inr rl \<and> map to_string rl = map Some idents
         else idents = []"
    and mp: "if truthy (map_of body ''makePrimary'')
         then \<exists>mp s. map_of body ''makePrimary'' = Some mp \<and> to_string mp = Some s
                \<and> primary = Some s
         else primary = None"
  shows "put_project json_parse doc ident body files
    = Some (OkProject
              (AList.update ''images''
                 (JArr (map JStr (updated_images idents (uploads files) primary imgs)))
                 (update_fields body (readProjects doc ! i))),
            Some ((readProjects doc)
                    [i := AList.update ''images''
                       (JArr (map JStr (updated_images idents (uploads files) primary imgs)))
                       (update_fields body (readProjects doc ! i))]))"
  using found put_record_strings [OF imgs rm mp, of files]
  by (simp add: put_project_def Let_def writeProjects_def)

section \<open>Order of the image steps\<close>

lemma primary_images_hd:
  assumes "parseInt10 s = None" and "list_ex (refers s) L"
  shows "primary_images s L \<noteq> [] \<and> refers s (hd (primary_images s L))
       \<and> hd (primary_images s L) \<in> set L"
proof -
  from assms(2) obtain i where i: "first_index (refers s) L = Some i"
    by (auto simp: first_index_def)
  from first_index_Some [OF i] have lt: "i < length L" and P: "refers s (L ! i)"
    by simp_all
  from assms(1) i have r: "resolve s L = Some i" by (simp add: resolve_def)
  show ?thesis
  proof (cases "0 < i")
    case True
    with r lt P show ?thesis by (simp add: primary_images_def to_front_def)
  next
    case False
    then have "i = 0" by simp
    with r lt P show ?thesis
      by (cases L) (simp_all add: primary_images_def)
  qed
qed

text \<open>
  C2: an update that carries removal identifiers, new uploads and a
  make-primary value together applies them in the order remove, append,
  make primary: the stored and returned \<open>images\<close> is the make-primary of the
  appended list of the list after removal. So a make-primary value that is no
  index and refers to an uploaded file, and to no reference left after the
  removal, puts that upload first.
\<close>

theorem update_order_remove_append_primary:
  assumes "find_id ident (readProjects doc) = Some i"
    and "map_of (readProjects doc ! i) ''images'' = Some (JArr (map JStr imgs))"
    and "map_of body ''removeImages'' = Some v" and "truthy (Some v)"
    and "removeList_of json_parse v = Inr rl" and "map to_string rl = map Some idents"
    and "files = Some fs" and "fs \<noteq> []"
    and "map_of body ''makePrimary'' = Some mp" and "truthy (Some mp)"
    and "to_string mp = Some s"
  shows "\<exists>p'. put_project json_parse doc ident body files
            = Some (OkProject p', Some ((readProjects doc)[i := p']))
        \<and> map_of p' ''images''
            = Some (JArr (map JStr
                (primary_images s (appended_images fs (removed_images idents imgs)))))
        \<and> (parseInt10 s = None \<and> list_ex (refers s) (map webPath fs)
             \<and> \<not> list_ex (refers s) (removed_images idents imgs)
           \<longrightarrow> primary_images s (appended_images fs (removed_images idents imgs)) \<noteq> []
             \<and> refers s (hd (primary_images s (appended_images fs (removed_images idents imgs))))
             \<and> hd (primary_images s (appended_images fs (removed_images idents imgs)))
                  \<in> set (map webPath fs))"
proof -
  let ?L = "appended_images fs (removed_images idents imgs)"
  have rm: "if truthy (map_of body ''removeImages'')
         then \<exists>v rl. map_of body ''removeImages'' = Some v
                \<and> removeList_of json_parse v = Inr rl \<and> map to_string rl = map Some idents
         else idents = []"
    using assms(3-6) by simp
  have mp: "if truthy (map_of body ''makePrimary'')
         then \<exists>mp s'. map_of body ''makePrimary'' = Some mp \<and> to_string mp = Some s'
                \<and> Some s = Some s'
         else Some s = None"
    using assms(9-11) by simp
  have up: "updated_images idents (uploads files) (Some s) imgs = primary_images s ?L"
    using assms(7) by (simp add: updated_images_def uploads_def)
  have hd: "primary_images s ?L \<noteq> [] \<and> refers s (hd (primary_images s ?L))
        \<and> hd (primary_images s ?L) \<in> set (map webPath fs)"
    if a: "parseInt10 s = None" and b: "list_ex (refers s) (map webPath fs)"
      and c: "\<not> list_ex (refers s) (removed_images idents imgs)"
  proof -
    from b have "list_ex (refers s) ?L" by (auto simp: appended_images_def list_ex_iff)
    from primary_images_hd [OF a this]
    have 1: "primary_images s ?L \<noteq> []" and 2: "refers s (hd (primary_images s ?L))"
      and 3: "hd (primary_images s ?L) \<in> set ?L" by simp_all
    from 2 3 c have "hd (primary_images s ?L) \<in> set (map webPath fs)"
      by (auto simp: appended_images_def list_ex_iff)
    with 1 2 show ?thesis by simp
  qed
  let ?p' = "AList.update ''images'' (JArr (map JStr (primary_images s ?L)))
      (update_fields body (readProjects doc ! i))"
  have A: "put_project json_parse doc ident body files
      = Some (OkProject ?p', Some ((readProjects doc)[i := ?p']))"
    using put_project_strings [OF assms(1,2) rm mp, of files] up by simp
  have B: "map_of ?p' ''images'' = Some (JArr (map JStr (primary_images s ?L)))"
    by (simp add: AList.update_conv')
  have C: "parseInt10 s = None \<and> list_ex (refers s) (map webPath fs)
        \<and> \<not> list_ex (refers s) (removed_images idents imgs)
      \<longrightarrow> primary_images s ?L \<noteq> [] \<and> refers s (hd (primary_images s ?L))
        \<and> hd (primary_images s ?L) \<in> set (map webPath fs)"
    using hd by (intro impI) (elim conjE)
  show ?thesis
    by (rule exI [of _ ?p'], intro conjI) (rule A, rule B, rule C)
qed


theorem update_order_remove_append_primary_witness:
  \<open>put_project
      (\<lambda>s. if s = ''["assets/images/projects/project-1-a.jpg"]''
           then Some (JArr [JStr ''assets/images/projects/project-1-a.jpg'']) else None)
      (Some [[(''id'', JStr ''p1''),
              (''images'', JArr [JStr ''assets/images/projects/project-1-a.jpg'',
                                JStr ''assets/images/projects/project-2-b.jpg''])]])
      ''p1''
      [(''removeImages'', JStr ''["assets/images/projects/project-1-a.jpg"]''),
       (''makePrimary'', JStr ''project-3-c.png'')]
      (Some [''project-3-c.png''])
    = Some (OkProject
              [(''id'', JStr ''p1''),
               (''images'', JArr [JStr ''assets/images/projects/project-3-c.png'',
                                 JStr ''assets/images/projects/project-2-b.jpg''])],
            Some [[(''id'', JStr ''p1''),
                   (''images'', JArr [JStr ''assets/images/projects/project-3-c.png'',
                                     JStr ''assets/images/projects/project-2-b.jpg''])]])
   \<and> hd (primary_images ''project-3-c.png''
          (appended_images [''project-3-c.png'']
            (removed_images [''assets/images/projects/project-1-a.jpg'']
               [''assets/images/projects/project-1-a.jpg'',
                ''assets/images/projects/project-2-b.jpg''])))
       \<in> set (map webPath [''project-3-c.png''])\<close>
proof -
  let ?jp = \<open>\<lambda>s. if s = ''["assets/images/projects/project-1-a.jpg"]''
           then Some (JArr [JStr ''assets/images/projects/project-1-a.jpg'']) else None\<close>
  let ?doc = "Some [[(''id'', JStr ''p1''),
              (''images'', JArr [JStr ''assets/images/projects/project-1-a.jpg'',
                                JStr ''assets/images/projects/project-2-b.jpg''])]]"
  let ?body = \<open>[(''removeImages'', JStr ''["assets/images/projects/project-1-a.jpg"]''),
       (''makePrimary'', JStr ''project-3-c.png'')]\<close>
  let ?imgs = "[''assets/images/projects/project-1-a.jpg'',
                ''assets/images/projects/project-2-b.jpg'']"
  have h1: "find_id ''p1'' (readProjects ?doc) = Some 0" by code_simp
  have h2: "map_of (readProjects ?doc ! 0) ''images'' = Some (JArr (map JStr ?imgs))"
    by code_simp
  have h3: \<open>map_of ?body ''removeImages''
      = Some (JStr ''["assets/images/projects/project-1-a.jpg"]'')\<close> by simp
  have h4: \<open>truthy (Some (JStr ''["assets/images/projects/project-1-a.jpg"]''))\<close> by simp
  have h5: \<open>removeList_of ?jp (JStr ''["assets/images/projects/project-1-a.jpg"]'')
      = Inr [JStr ''assets/images/projects/project-1-a.jpg'']\<close>
    by (simp add: removeList_of_def)
  have h6: "map to_string [JStr ''assets/images/projects/project-1-a.jpg'']
      = map Some [''assets/images/projects/project-1-a.jpg'']" by simp
  have h7: "Some [''project-3-c.png''] = Some [''project-3-c.png'']"
    and h8: "[''project-3-c.png''] \<noteq> []" by simp_all
  have h9: "map_of ?body ''makePrimary'' = Some (JStr ''project-3-c.png'')" by simp
  have h10: "truthy (Some (JStr ''project-3-c.png''))" by simp
  have h11: "to_string (JStr ''project-3-c.png'') = Some ''project-3-c.png''" by simp
  have c1: "parseInt10 ''project-3-c.png'' = None" by code_simp
  have c2: "list_ex (refers ''project-3-c.png'') (map webPath [''project-3-c.png''])"
    by code_simp
  have c3: "\<not> list_ex (refers ''project-3-c.png'')
      (removed_images [''assets/images/projects/project-1-a.jpg''] ?imgs)"
    by code_simp
  have direct: "put_project ?jp ?doc ''p1'' ?body (Some [''project-3-c.png''])
    = Some (OkProject
              [(''id'', JStr ''p1''),
               (''images'', JArr [JStr ''assets/images/projects/project-3-c.png'',
                                 JStr ''assets/images/projects/project-2-b.jpg''])],
            Some [[(''id'', JStr ''p1''),
                   (''images'', JArr [JStr ''assets/images/projects/project-3-c.png'',
                                     JStr ''assets/images/projects/project-2-b.jpg''])]])"
    by code_simp
  from update_order_remove_append_primary [OF h1 h2 h3 h4 h5 h6 h7 h8 h9 h10 h11] c1 c2 c3
  have "hd (primary_images ''project-3-c.png''
          (appended_images [''project-3-c.png'']
            (removed_images [''assets/images/projects/project-1-a.jpg''] ?imgs)))
       \<in> set (map webPath [''project-3-c.png''])"
    by blast
  with direct show ?thesis by (intro conjI)
qed

section \<open>Removing images\<close>

lemma removed_images_Cons:
  "removed_images (x # xs) imgs = removed_images xs (drop_first (refers x) imgs)"
  by (simp add: removed_images_def)

lemma removed_images_noop:
  assumes "\<forall>x\<in>set idents. \<not> list_ex (refers x) imgs"
  shows "removed_images idents imgs = imgs"
  using assms
proof (induction idents)
  case Nil
  then show ?case by (simp add: removed_images_def)
next
  case (Cons x xs)
  then have "first_index (refers x) imgs = None" by (simp add: first_index_def)
  then have "drop_first (refers x) imgs = imgs" by (rule first_index_None)
  with Cons show ?case by (simp add: removed_images_Cons)
qed

text \<open>
  C5: the identifiers of \<open>removeImages\<close> are taken in turn; each removes the
  first reference, in array order, that equals it or ends with it, and the
  other references keep their order (\<open>removed_images\<close> folds \<open>drop_first\<close>
  over the identifiers). The update answers 200 with the record, whose
  \<open>images\<close> is that list after the other two steps of the same request; when
  no identifier matches a reference the removal leaves the list as it was.
\<close>

theorem removeImages_first_match:
  assumes "find_id ident (readProjects doc) = Some i"
    and "map_of (readProjects doc ! i) ''images'' = Some (JArr (map JStr imgs))"
    and "map_of body ''removeImages'' = Some v" and "truthy (Some v)"
    and "removeList_of json_parse v = Inr rl" and "map to_string rl = map Some idents"
    and "if truthy (map_of body ''makePrimary'')
         then \<exists>mp s. map_of body ''makePrimary'' = Some mp \<and> to_string mp = Some s
                \<and> primary = Some s
         else primary = None"
  shows "\<exists>p'. put_project json_parse doc ident body files
            = Some (OkProject p', Some ((readProjects doc)[i := p']))
        \<and> status (OkProject p') = 200
        \<and> map_of p' ''images''
            = Some (JArr (map JStr (updated_images idents (uploads files) primary imgs)))
        \<and> (uploads files = [] \<and> primary = None
            \<longrightarrow> map_of p' ''images''
                = Some (JArr (map JStr
                    (foldl (\<lambda>acc ident. drop_first (refers ident) acc) imgs idents))))
        \<and> ((\<forall>x\<in>set idents. \<not> list_ex (refers x) imgs)
            \<longrightarrow> removed_images idents imgs = imgs)"
proof -
  have rm: "if truthy (map_of body ''removeImages'')
         then \<exists>v rl. map_of body ''removeImages'' = Some v
                \<and> removeList_of json_parse v = Inr rl \<and> map to_string rl = map Some idents
         else idents = []"
    using assms(3-6) by simp
  let ?p' = "AList.update ''images''
      (JArr (map JStr (updated_images idents (uploads files) primary imgs)))
      (update_fields body (readProjects doc ! i))"
  have A: "put_project json_parse doc ident body files
      = Some (OkProject ?p', Some ((readProjects doc)[i := ?p']))"
    by (rule put_project_strings [OF assms(1,2) rm assms(7)])
  have B: "status (OkProject ?p') = 200" by simp
  have C: "map_of ?p' ''images''
      = Some (JArr (map JStr (updated_images idents (uploads files) primary imgs)))"
    by (simp add: AList.update_conv')
  have D: "uploads files = [] \<and> primary = None
      \<longrightarrow> map_of ?p' ''images''
          = Some (JArr (map JStr (foldl (\<lambda>acc ident. drop_first (refers ident) acc) imgs idents)))"
    by (simp add: AList.update_conv' updated_images_def appended_images_def removed_images_def)
  have E: "(\<forall>x\<in>set idents. \<not> list_ex (refers x) imgs) \<longrightarrow> removed_images idents imgs = imgs"
    using removed_images_noop by blast
  show ?thesis
    by (rule exI [of _ ?p'], intro conjI) (rule A, rule B, rule C, rule D, rule E)
qed

theorem removeImages_first_match_witness:
  "put_project (\<lambda>s. None)
      (Some [[(''id'', JStr ''p1''),
              (''images'', JArr [JStr ''x/a.jpg'', JStr ''y/b.jpg'', JStr ''z/a.jpg''])]])
      ''p1'' [(''removeImages'', JStr ''a.jpg, none.png'')] None
    = Some (OkProject [(''id'', JStr ''p1''), (''images'', JArr [JStr ''y/b.jpg'', JStr ''z/a.jpg''])],
            Some [[(''id'', JStr ''p1''), (''images'', JArr [JStr ''y/b.jpg'', JStr ''z/a.jpg''])]])
   \<and> removed_images [''none.png''] [''x/a.jpg'', ''y/b.jpg'', ''z/a.jpg'']
      = [''x/a.jpg'', ''y/b.jpg'', ''z/a.jpg'']"
proof -
  let ?doc = "Some [[(''id'', JStr ''p1''),
              (''images'', JArr [JStr ''x/a.jpg'', JStr ''y/b.jpg'', JStr ''z/a.jpg''])]]"
  let ?body = "[(''removeImages'', JStr ''a.jpg, none.png'')]"
  let ?imgs = "[''x/a.jpg'', ''y/b.jpg'', ''z/a.jpg'']"
  have h1: "find_id ''p1'' (readProjects ?doc) = Some 0" by code_simp
  have h2: "map_of (readProjects ?doc ! 0) ''images'' = Some (JArr (map JStr ?imgs))"
    by code_simp
  have h3: "map_of ?body ''removeImages'' = Some (JStr ''a.jpg, none.png'')" by simp
  have h4: "truthy (Some (JStr ''a.jpg, none.png''))" by simp
  have h5: "removeList_of (\<lambda>s. None) (JStr ''a.jpg, none.png'')
      = Inr [JStr ''a.jpg'', JStr ''none.png'']" by code_simp
  have h6: "map to_string [JStr ''a.jpg'', JStr ''none.png''] = map Some [''a.jpg'', ''none.png'']"
    by simp
  have h7: "if truthy (map_of ?body ''makePrimary'')
         then \<exists>mp s. map_of ?body ''makePrimary'' = Some mp \<and> to_string mp = Some s
                \<and> None = Some s
         else (None :: string option) = None" by simp
  have e: "updated_images [''a.jpg'', ''none.png''] (uploads None) None ?imgs
      = [''y/b.jpg'', ''z/a.jpg'']" by code_simp
  have n: "\<forall>x\<in>set [''none.png'']. \<not> list_ex (refers x) ?imgs" by code_simp
  have direct: "put_project (\<lambda>s. None) ?doc ''p1'' ?body None
    = Some (OkProject [(''id'', JStr ''p1''), (''images'', JArr [JStr ''y/b.jpg'', JStr ''z/a.jpg''])],
            Some [[(''id'', JStr ''p1''), (''images'', JArr [JStr ''y/b.jpg'', JStr ''z/a.jpg''])]])"
    by code_simp
  have h3': "map_of [(''removeImages'', JStr ''none.png'')] ''removeImages''
      = Some (JStr ''none.png'')" by simp
  have h4': "truthy (Some (JStr ''none.png''))" by simp
  have h5': "removeList_of (\<lambda>s. None) (JStr ''none.png'') = Inr [JStr ''none.png'']"
    by code_simp
  have h6': "map to_string [JStr ''none.png''] = map Some [''none.png'']" by simp
  have h7': "if truthy (map_of [(''removeImages'', JStr ''none.png'')] ''makePrimary'')
         then \<exists>mp s. map_of [(''removeImages'', JStr ''none.png'')] ''makePrimary'' = Some mp
                \<and> to_string mp = Some s \<and> None = Some s
         else (None :: string option) = None" by simp
  from removeImages_first_match [OF h1 h2 h3' h4' h5' h6' h7', of None] n
  have "removed_images [''none.png''] ?imgs = ?imgs" by blast
  with direct show ?thesis by (intro conjI)
qed

section \<open>Make primary\<close>

lemma primary_images_noop:
  "resolve s L = Some 0 \<or> resolve s L = None \<Longrightarrow> primary_images s L = L"
  by (auto simp: primary_images_def)

lemma resolve_noop_cases:
  assumes "(parseInt10 s = Some 0 \<and> L \<noteq> [])
     \<or> (\<not> read_as_index s L \<and> (\<not> list_ex (refers s) L \<or> (L \<noteq> [] \<and> refers s (hd L))))"
  shows "resolve s L = Some 0 \<or> resolve s L = None"
proof -
  have a: "resolve s L = Some 0" if "parseInt10 s = Some 0" and "L \<noteq> []"
    using that by (simp add: resolve_def)
  have b: "resolve s L = first_index (refers s) L" if "\<not> read_as_index s L"
    using that by (auto simp: resolve_def read_as_index_def split: option.splits)
  have c: "first_index (refers s) L = None" if "\<not> list_ex (refers s) L"
    using that by (simp add: first_index_def)
  have d: "first_index (refers s) L = Some 0" if "L \<noteq> []" and "refers s (hd L)"
    using that by (cases L) (simp_all add: first_index_def)
  from assms a b c d show ?thesis by metis
qed

lemma resolve_index:
  assumes "parseInt10 s = Some n" and "0 \<le> n" and "n < int (length L)"
  shows "primary_images s L = (if 0 < n then to_front (nat n) L else L)"
  using assms by (simp add: primary_images_def resolve_def)

lemma primary_block_index:
  assumes "map_of q ''images'' = Some (JArr refs)"
    and "map_of body ''makePrimary'' = Some mp" and "truthy (Some mp)"
    and "to_string mp = Some s"
    and "parseInt10 s = Some n" and "0 \<le> n" and "n < int (length refs)"
  shows "targetIndex (parseInt10 s) mp refs = Inr n
       \<and> primary_block body q
          = Some (Inr (if 0 < n
                       then AList.update ''images''
                              (JArr (refs ! nat n # (take (nat n) refs @ drop (Suc (nat n)) refs))) q
                       else q))"
  using assms by (simp add: targetIndex_def primary_block_def moveToFront_def)

text \<open>
  C8, as stated, fails: a make-primary value is read as an index before it is
  read as an identifier. \<^verbatim>\<open>"2.jpg"\<close> equals the reference at index 0 of
  \<^verbatim>\<open>["2.jpg", "b.jpg", "c.jpg"]\<close>, yet \<^verbatim>\<open>parseInt\<close> gives 2 and the third entry moves
  to the front; \<^verbatim>\<open>"1-nonexistent.png"\<close> refers to no entry of
  \<^verbatim>\<open>["a.jpg", "b.jpg"]\<close>, yet \<^verbatim>\<open>parseInt\<close> gives 1 and the second entry moves to
  the front.
\<close>

theorem makePrimary_identifier_read_as_index_counterexample:
  "put_project (\<lambda>s. None)
      (Some [[(''id'', JStr ''p1''),
              (''images'', JArr [JStr ''2.jpg'', JStr ''b.jpg'', JStr ''c.jpg''])]])
      ''p1'' [(''makePrimary'', JStr ''2.jpg'')] None
    = Some (OkProject [(''id'', JStr ''p1''),
                       (''images'', JArr [JStr ''c.jpg'', JStr ''2.jpg'', JStr ''b.jpg''])],
            Some [[(''id'', JStr ''p1''),
                   (''images'', JArr [JStr ''c.jpg'', JStr ''2.jpg'', JStr ''b.jpg''])]])
   \<and> refers ''2.jpg'' (hd [''2.jpg'', ''b.jpg'', ''c.jpg''])
   \<and> put_project (\<lambda>s. None)
      (Some [[(''id'', JStr ''p1''), (''images'', JArr [JStr ''a.jpg'', JStr ''b.jpg''])]])
      ''p1'' [(''makePrimary'', JStr ''1-nonexistent.png'')] None
    = Some (OkProject [(''id'', JStr ''p1''), (''images'', JArr [JStr ''b.jpg'', JStr ''a.jpg''])],
            Some [[(''id'', JStr ''p1''), (''images'', JArr [JStr ''b.jpg'', JStr ''a.jpg''])]])
   \<and> \<not> list_ex (refers ''1-nonexistent.png'') [''a.jpg'', ''b.jpg'']"
  by code_simp

text \<open>
  C8, amended: the make-primary step changes nothing when its value is read
  as the index 0 of a non-empty list, or when it is not read as an index
  within the list (\<^verbatim>\<open>parseInt\<close> gives \<^verbatim>\<open>NaN\<close>, a negative number or a number
  not below the length) and either refers to the image at index 0 or refers
  to no image. The record's \<open>images\<close> is then the list the step received (the
  list after the removal and the append of the same request), and the stored
  list itself when the request removes and uploads nothing.
\<close>

theorem makePrimary_noop:
  assumes "find_id ident (readProjects doc) = Some i"
    and "map_of (readProjects doc ! i) ''images'' = Some (JArr (map JStr imgs))"
    and "if truthy (map_of body ''removeImages'')
         then \<exists>v rl. map_of body ''removeImages'' = Some v
                \<and> removeList_of json_parse v = Inr rl \<and> map to_string rl = map Some idents
         else idents = []"
    and "map_of body ''makePrimary'' = Some mp" and "truthy (Some mp)"
    and "to_string mp = Some s"
    and "L = appended_images (uploads files) (removed_images idents imgs)"
    and "(parseInt10 s = Some 0 \<and> L \<noteq> [])
       \<or> (\<not> read_as_index s L
           \<and> (\<not> list_ex (refers s) L \<or> (L \<noteq> [] \<and> refers s (hd L))))"
  shows "\<exists>p'. put_project json_parse doc ident body files
            = Some (OkProject p', Some ((readProjects doc)[i := p']))
        \<and> map_of p' ''images'' = Some (JArr (map JStr L))
        \<and> (idents = [] \<and> uploads files = []
            \<longrightarrow> map_of p' ''images'' = map_of (readProjects doc ! i) ''images'')"
proof -
  have mp: "if truthy (map_of body ''makePrimary'')
         then \<exists>mp s'. map_of body ''makePrimary'' = Some mp \<and> to_string mp = Some s'
                \<and> Some s = Some s'
         else Some s = None"
    using assms(4-6) by simp
  have "resolve s L = Some 0 \<or> resolve s L = None"
    by (rule resolve_noop_cases [OF assms(8)])
  then have "primary_images s L = L" by (rule primary_images_noop)
  then have up: "updated_images idents (uploads files) (Some s) imgs = L"
    using assms(7) by (simp add: updated_images_def)
  let ?p' = "AList.update ''images'' (JArr (map JStr L))
      (update_fields body (readProjects doc ! i))"
  have A: "put_project json_parse doc ident body files
      = Some (OkProject ?p', Some ((readProjects doc)[i := ?p']))"
    using put_project_strings [OF assms(1,2,3) mp, of files] up by simp
  have B: "map_of ?p' ''images'' = Some (JArr (map JStr L))"
    by (simp add: AList.update_conv')
  have C: "idents = [] \<and> uploads files = []
      \<longrightarrow> map_of ?p' ''images'' = map_of (readProjects doc ! i) ''images''"
    using assms(2,7)
    by (simp add: AList.update_conv' appended_images_def removed_images_def)
  show ?thesis
    by (rule exI [of _ ?p'], intro conjI) (rule A, rule B, rule C)
qed

theorem makePrimary_noop_witness:
  "put_project (\<lambda>s. None)
      (Some [[(''id'', JStr ''p1''),
              (''images'', JArr [JStr ''assets/images/projects/project-1-a.jpg'',
                                JStr ''assets/images/projects/project-2-b.jpg''])]])
      ''p1'' [(''makePrimary'', JStr ''project-1-a.jpg'')] None
    = Some (OkProject
              [(''id'', JStr ''p1''),
               (''images'', JArr [JStr ''assets/images/projects/project-1-a.jpg'',
                                 JStr ''assets/images/projects/project-2-b.jpg''])],
            Some [[(''id'', JStr ''p1''),
                   (''images'', JArr [JStr ''assets/images/projects/project-1-a.jpg'',
                                     JStr ''assets/images/projects/project-2-b.jpg''])]])
   \<and> \<not> read_as_index ''project-1-a.jpg'' [''assets/images/projects/project-1-a.jpg'',
                                           ''assets/images/projects/project-2-b.jpg'']
   \<and> refers ''project-1-a.jpg'' (hd [''assets/images/projects/project-1-a.jpg'',
                                      ''assets/images/projects/project-2-b.jpg''])"
proof -
  let ?doc = "Some [[(''id'', JStr ''p1''),
              (''images'', JArr [JStr ''assets/images/projects/project-1-a.jpg'',
                                JStr ''assets/images/projects/project-2-b.jpg''])]]"
  let ?body = "[(''makePrimary'', JStr ''project-1-a.jpg'')]"
  let ?imgs = "[''assets/images/projects/project-1-a.jpg'',
                ''assets/images/projects/project-2-b.jpg'']"
  have h1: "find_id ''p1'' (readProjects ?doc) = Some 0" by code_simp
  have h2: "map_of (readProjects ?doc ! 0) ''images'' = Some (JArr (map JStr ?imgs))"
    by code_simp
  have h3: "if truthy (map_of ?body ''removeImages'')
         then \<exists>v rl. map_of ?body ''removeImages'' = Some v
                \<and> removeList_of (\<lambda>s. None) v = Inr rl \<and> map to_string rl = map Some []
         else ([] :: string list) = []" by simp
  have h4: "map_of ?body ''makePrimary'' = Some (JStr ''project-1-a.jpg'')" by simp
  have h5: "truthy (Some (JStr ''project-1-a.jpg''))" by simp
  have h6: "to_string (JStr ''project-1-a.jpg'') = Some ''project-1-a.jpg''" by simp
  have h7: "?imgs = appended_images (uploads None) (removed_images [] ?imgs)" by code_simp
  have n: "\<not> read_as_index ''project-1-a.jpg'' ?imgs" by code_simp
  have r: "refers ''project-1-a.jpg'' (hd ?imgs)" by code_simp
  have h8: "(parseInt10 ''project-1-a.jpg'' = Some 0 \<and> ?imgs \<noteq> [])
       \<or> (\<not> read_as_index ''project-1-a.jpg'' ?imgs
           \<and> (\<not> list_ex (refers ''project-1-a.jpg'') ?imgs
               \<or> (?imgs \<noteq> [] \<and> refers ''project-1-a.jpg'' (hd ?imgs))))"
    using n r by simp
  have direct: "put_project (\<lambda>s. None) ?doc ''p1'' ?body None
    = Some (OkProject
              [(''id'', JStr ''p1''),
               (''images'', JArr [JStr ''assets/images/projects/project-1-a.jpg'',
                                 JStr ''assets/images/projects/project-2-b.jpg''])],
            Some [[(''id'', JStr ''p1''),
                   (''images'', JArr [JStr ''assets/images/projects/project-1-a.jpg'',
                                     JStr ''assets/images/projects/project-2-b.jpg''])]])"
    by code_simp
  from makePrimary_noop [OF h1 h2 h3 h4 h5 h6 h7 h8] direct n r
  show ?thesis by (intro conjI)
qed

text \<open>
  C9, as stated, fails: the bound on the index is the length of the list when
  the make-primary step runs, after the removal and the append of the same
  request, not the length of the record's stored \<open>images\<close>. With
  \<^verbatim>\<open>removeImages "a.jpg"\<close> and \<^verbatim>\<open>makePrimary "2"\<close> on \<^verbatim>\<open>["a.jpg", "k2", "z"]\<close>,
  2 is below the stored length 3, yet the value is matched as a suffix (of
  \<^verbatim>\<open>"k2"\<close>, at index 0) and nothing moves.
\<close>

theorem makePrimary_bound_after_removal_counterexample:
  "put_project (\<lambda>s. None)
      (Some [[(''id'', JStr ''p1''),
              (''images'', JArr [JStr ''a.jpg'', JStr ''k2'', JStr ''z''])]])
      ''p1'' [(''removeImages'', JStr ''a.jpg''), (''makePrimary'', JStr ''2'')] None
    = Some (OkProject [(''id'', JStr ''p1''), (''images'', JArr [JStr ''k2'', JStr ''z''])],
            Some [[(''id'', JStr ''p1''), (''images'', JArr [JStr ''k2'', JStr ''z''])]])
   \<and> parseInt10 ''2'' = Some 2
   \<and> (2::int) < int (length [''a.jpg'', ''k2'', ''z''])
   \<and> targetIndex (parseInt10 ''2'') (JStr ''2'') [JStr ''k2'', JStr ''z''] = Inr 0
   \<and> findIndex (matches (JStr ''2'')) [JStr ''k2'', JStr ''z''] = Inr (Some 0)"
  by code_simp

text \<open>
  C9, amended: for every update whose make-primary value has a \<^verbatim>\<open>parseInt\<close>
  that is an index within the list the step receives (the record's \<open>images\<close>
  after the removal and the append of the same request), that index is the
  target: the entry there moves to the front (or stays, for index 0), and no
  reference is compared with the value; the step gives that result on any
  list of references of that length, also where comparing would throw.
\<close>

theorem makePrimary_index_first:
  assumes "find_id ident (readProjects doc) = Some i"
    and "map_of (readProjects doc ! i) ''images'' = Some (JArr (map JStr imgs))"
    and "if truthy (map_of body ''removeImages'')
         then \<exists>v rl. map_of body ''removeImages'' = Some v
                \<and> removeList_of json_parse v = Inr rl \<and> map to_string rl = map Some idents
         else idents = []"
    and "map_of body ''makePrimary'' = Some mp" and "truthy (Some mp)"
    and "to_string mp = Some s"
    and "L = appended_images (uploads files) (removed_images idents imgs)"
    and "parseInt10 s = Some n" and "0 \<le> n" and "n < int (length L)"
  shows "\<exists>p'. put_project json_parse doc ident body files
            = Some (OkProject p', Some ((readProjects doc)[i := p']))
        \<and> map_of p' ''images''
            = Some (JArr (map JStr
                (if 0 < n then L ! nat n # (take (nat n) L @ drop (Suc (nat n)) L) else L)))
        \<and> (\<forall>q refs. map_of q ''images'' = Some (JArr refs) \<and> n < int (length refs)
              \<longrightarrow> targetIndex (parseInt10 s) mp refs = Inr n
                \<and> primary_block body q
                   = Some (Inr (if 0 < n
                       then AList.update ''images''
                              (JArr (refs ! nat n # (take (nat n) refs @ drop (Suc (nat n)) refs))) q
                       else q)))"
proof -
  have mp: "if truthy (map_of body ''makePrimary'')
         then \<exists>mp s'. map_of body ''makePrimary'' = Some mp \<and> to_string mp = Some s'
                \<and> Some s = Some s'
         else Some s = None"
    using assms(4-6) by simp
  let ?R = "if 0 < n then L ! nat n # (take (nat n) L @ drop (Suc (nat n)) L) else L"
  have "primary_images s L = ?R"
    using resolve_index [OF assms(8-10)] by (simp add: to_front_def)
  then have up: "updated_images idents (uploads files) (Some s) imgs = ?R"
    using assms(7) by (simp add: updated_images_def)
  let ?p' = "AList.update ''images'' (JArr (map JStr ?R))
      (update_fields body (readProjects doc ! i))"
  have A: "put_project json_parse doc ident body files
      = Some (OkProject ?p', Some ((readProjects doc)[i := ?p']))"
    using put_project_strings [OF assms(1,2,3) mp, of files] up by simp
  have B: "map_of ?p' ''images'' = Some (JArr (map JStr ?R))"
    by (simp add: AList.update_conv')
  have C: "\<forall>q refs. map_of q ''images'' = Some (JArr refs) \<and> n < int (length refs)
              \<longrightarrow> targetIndex (parseInt10 s) mp refs = Inr n
                \<and> primary_block body q
                   = Some (Inr (if 0 < n
                       then AList.update ''images''
                              (JArr (refs ! nat n # (take (nat n) refs @ drop (Suc (nat n)) refs))) q
                       else q))"
    using primary_block_index [OF _ assms(4-6,8,9)] by blast
  show ?thesis
    by (rule exI [of _ ?p'], intro conjI) (rule A, rule B, rule C)
qed

theorem makePrimary_index_first_witness:
  "put_project (\<lambda>s. None)
      (Some [[(''id'', JStr ''p1''),
              (''images'', JArr [JStr ''2.jpg'', JStr ''b.jpg'', JStr ''c.jpg''])]])
      ''p1'' [(''makePrimary'', JStr ''2.jpg'')] None
    = Some (OkProject [(''id'', JStr ''p1''),
                       (''images'', JArr [JStr ''c.jpg'', JStr ''2.jpg'', JStr ''b.jpg''])],
            Some [[(''id'', JStr ''p1''),
                   (''images'', JArr [JStr ''c.jpg'', JStr ''2.jpg'', JStr ''b.jpg''])]])
   \<and> findIndex (matches (JStr ''2.jpg'')) [JStr ''2.jpg'', JStr ''b.jpg'', JStr ''c.jpg'']
      = Inr (Some 0)
   \<and> primary_block [(''makePrimary'', JNum 1000000000000000000000 ''1e+21'')]
        [(''images'', JArr [JStr ''a.jpg'', JStr ''b.jpg''])]
      = Some (Inr [(''images'', JArr [JStr ''b.jpg'', JStr ''a.jpg''])])"
proof -
  let ?doc = "Some [[(''id'', JStr ''p1''),
              (''images'', JArr [JStr ''2.jpg'', JStr ''b.jpg'', JStr ''c.jpg''])]]"
  let ?body = "[(''makePrimary'', JStr ''2.jpg'')]"
  let ?imgs = "[''2.jpg'', ''b.jpg'', ''c.jpg'']"
  have h1: "find_id ''p1'' (readProjects ?doc) = Some 0" by code_simp
  have h2: "map_of (readProjects ?doc ! 0) ''images'' = Some (JArr (map JStr ?imgs))"
    by code_simp
  have h3: "if truthy (map_of ?body ''removeImages'')
         then \<exists>v rl. map_of ?body ''removeImages'' = Some v
                \<and> removeList_of (\<lambda>s. None) v = Inr rl \<and> map to_string rl = map Some []
         else ([] :: string list) = []" by simp
  have h4: "map_of ?body ''makePrimary'' = Some (JStr ''2.jpg'')" by simp
  have h5: "truthy (Some (JStr ''2.jpg''))" by simp
  have h6: "to_string (JStr ''2.jpg'') = Some ''2.jpg''" by simp
  have h7: "?imgs = appended_images (uploads None) (removed_images [] ?imgs)" by code_simp
  have h8: "parseInt10 ''2.jpg'' = Some 2" by code_simp
  have h9: "(0::int) \<le> 2" by simp
  have h10: "(2::int) < int (length ?imgs)" by simp
  have m: "findIndex (matches (JStr ''2.jpg'')) [JStr ''2.jpg'', JStr ''b.jpg'', JStr ''c.jpg'']
      = Inr (Some 0)" by code_simp
  have direct: "put_project (\<lambda>s. None) ?doc ''p1'' ?body None
    = Some (OkProject [(''id'', JStr ''p1''),
                       (''images'', JArr [JStr ''c.jpg'', JStr ''2.jpg'', JStr ''b.jpg''])],
            Some [[(''id'', JStr ''p1''),
                   (''images'', JArr [JStr ''c.jpg'', JStr ''2.jpg'', JStr ''b.jpg''])]])"
    by code_simp
  have big: "primary_block [(''makePrimary'', JNum 1000000000000000000000 ''1e+21'')]
        [(''images'', JArr [JStr ''a.jpg'', JStr ''b.jpg''])]
      = Some (Inr [(''images'', JArr [JStr ''b.jpg'', JStr ''a.jpg''])])"
    by code_simp
  from makePrimary_index_first [OF h1 h2 h3 h4 h5 h6 h7 h8 h9 h10] direct m big
  show ?thesis by (intro conjI)
qed

section \<open>Parsing the removal list\<close>

text \<open>
  C10: a \<open>removeImages\<close> value that parses as JSON but not to an array gives
  the empty removal list, so the removal leaves the record as it is; an array
  gives its elements; the comma-separated reading is used exactly when
  \<^verbatim>\<open>JSON.parse\<close> throws.
\<close>

theorem removeImages_json_non_array:
  assumes "map_of body ''removeImages'' = Some v" and "truthy (Some v)"
    and "to_string v = Some s"
  shows "(\<forall>w. json_parse s = Some w \<and> \<not> isArray w
            \<longrightarrow> removeList_of json_parse v = Inr [] \<and> remove_block json_parse body p = Inr p)
       \<and> (\<forall>xs. json_parse s = Some (JArr xs) \<longrightarrow> removeList_of json_parse v = Inr xs)
       \<and> (json_parse s = None
            \<longrightarrow> removeList_of json_parse v = Inr (map JStr (split_trim CHR '','' s)))"
proof -
  have "removeList_of json_parse v = Inr []" if "json_parse s = Some w" and "\<not> isArray w" for w
    using that assms(3) by (cases w) (simp_all add: removeList_of_def)
  then show ?thesis
    using assms by (auto simp: removeList_of_def remove_block_def)
qed

theorem removeImages_json_non_array_witness:
  "remove_block (\<lambda>s. if s = ''5'' then Some (JNum 5 ''5'') else None)
      [(''removeImages'', JStr ''5'')] [(''images'', JArr [JStr ''x5.jpg5''])]
    = Inr [(''images'', JArr [JStr ''x5.jpg5''])]
   \<and> remove_each (map JStr (split_trim CHR '','' ''5'')) [(''images'', JArr [JStr ''x5.jpg5''])]
    = Inr [(''images'', JArr [])]"
proof -
  have h1: "map_of [(''removeImages'', JStr ''5'')] ''removeImages'' = Some (JStr ''5'')" by simp
  have h2: "truthy (Some (JStr ''5''))" by simp
  have h3: "to_string (JStr ''5'') = Some ''5''" by simp
  have f: "remove_each (map JStr (split_trim CHR '','' ''5'')) [(''images'', JArr [JStr ''x5.jpg5''])]
    = Inr [(''images'', JArr [])]" by code_simp
  from removeImages_json_non_array [OF h1 h2 h3,
      of "\<lambda>s. if s = ''5'' then Some (JNum 5 ''5'') else None" "[(''images'', JArr [JStr ''x5.jpg5''])]"] f
  show ?thesis by simp
qed

section \<open>Order of the listing\<close>

lemma compareDates_keys:
  assumes "sortKey parse a = Inr (Some x)" and "sortKey parse b = Inr (Some y)"
  shows "compareDates parse a b = Inr (Some (y - x))"
  using assms by (simp add: compareDates_def)

lemma sortInsert_sorted:
  assumes "\<forall>p\<in>set (x # ys). \<exists>t. sortKey parse p = Inr (Some t)"
    and "newest_first (map (code_sortKey parse) ys)"
  shows "\<exists>r. sortInsert (compareDates parse) x ys = Inr r
      \<and> mset r = mset (x # ys)
      \<and> newest_first (map (code_sortKey parse) r)
      \<and> (\<forall>t. filter (\<lambda>p. code_sortKey parse p = t) r
              = filter (\<lambda>p. code_sortKey parse p = t) (x # ys))"
  using assms
proof (induction ys)
  case Nil
  then show ?case by (auto simp: newest_first_def)
next
  case (Cons y ys)
  from Cons.prems(1) obtain kx ky where kx: "sortKey parse x = Inr (Some kx)"
    and ky: "sortKey parse y = Inr (Some ky)" by auto
  have cx: "code_sortKey parse x = Some kx" and cy: "code_sortKey parse y = Some ky"
    using kx ky by (simp_all add: code_sortKey_def)
  have cmp: "compareDates parse x y = Inr (Some (ky - kx))"
    by (rule compareDates_keys [OF kx ky])
  show ?case
  proof (cases "0 < ky - kx")
    case False
    then have le: "ky \<le> kx" by simp
    have "newer_eq (Some kx) k" if "k \<in> set (map (code_sortKey parse) (y # ys))" for k
    proof -
      from Cons.prems(2) that have "k = Some ky \<or> newer_eq (Some ky) k"
        by (auto simp: newest_first_def cy)
      with le show ?thesis by (cases k) auto
    qed
    then have "newest_first (map (code_sortKey parse) (x # y # ys))"
      using Cons.prems(2) by (simp add: newest_first_def cx)
    with False cmp show ?thesis by simp
  next
    case True
    from Cons.prems have 1: "\<forall>p\<in>set (x # ys). \<exists>t. sortKey parse p = Inr (Some t)"
      and 2: "newest_first (map (code_sortKey parse) ys)"
      by (simp_all add: newest_first_def)
    from Cons.IH [OF 1 2] obtain r where r: "sortInsert (compareDates parse) x ys = Inr r"
      and m: "mset r = mset (x # ys)"
      and s: "newest_first (map (code_sortKey parse) r)"
      and f: "\<forall>t. filter (\<lambda>p. code_sortKey parse p = t) r
              = filter (\<lambda>p. code_sortKey parse p = t) (x # ys)"
      by blast
    have set_r: "set r = set (x # ys)" using m by (metis set_mset_mset)
    have "newer_eq (Some ky) (code_sortKey parse p)" if "p \<in> set r" for p
    proof (cases "p = x")
      case True
      with \<open>0 < ky - kx\<close> show ?thesis by (simp add: cx)
    next
      case False
      with that set_r have "p \<in> set ys" by simp
      with Cons.prems(2) show ?thesis by (auto simp: newest_first_def cy)
    qed
    then have s': "newest_first (map (code_sortKey parse) (y # r))"
      using s by (simp add: newest_first_def cy)
    have m': "mset (y # r) = mset (x # y # ys)" using m by simp
    have f': "filter (\<lambda>p. code_sortKey parse p = t) (y # r)
              = filter (\<lambda>p. code_sortKey parse p = t) (x # y # ys)" for t
      using f True by (auto simp: cx cy)
    from True cmp r m' s' f' show ?thesis by simp
  qed
qed

lemma js_sort_sorted:
  assumes "\<forall>p\<in>set xs. \<exists>t. sortKey parse p = Inr (Some t)"
  shows "\<exists>r. js_sort (compareDates parse) xs = Inr r
      \<and> mset r = mset xs
      \<and> newest_first (map (code_sortKey parse) r)
      \<and> (\<forall>t. filter (\<lambda>p. code_sortKey parse p = t) r
              = filter (\<lambda>p. code_sortKey parse p = t) xs)"
  using assms
proof (induction xs)
  case Nil
  then show ?case by (simp add: newest_first_def)
next
  case (Cons x xs)
  then obtain r where r: "js_sort (compareDates parse) xs = Inr r"
    and m: "mset r = mset xs"
    and s: "newest_first (map (code_sortKey parse) r)"
    and f: "\<forall>t. filter (\<lambda>p. code_sortKey parse p = t) r
              = filter (\<lambda>p. code_sortKey parse p = t) xs"
    by auto
  have "set r = set xs" using m by (metis set_mset_mset)
  with Cons.prems have "\<forall>p\<in>set (x # r). \<exists>t. sortKey parse p = Inr (Some t)" by simp
  from sortInsert_sorted [OF this s] obtain r' where
    "sortInsert (compareDates parse) x r = Inr r'" "mset r' = mset (x # r)"
    "newest_first (map (code_sortKey parse) r')"
    "\<forall>t. filter (\<lambda>p. code_sortKey parse p = t) r'
              = filter (\<lambda>p. code_sortKey parse p = t) (x # r)"
    by blast
  with r m f show ?case by simp
qed

lemma sortKey_fallback:
  "(\<forall>v. map_of a ''date'' = Some v \<and> truthy (Some v) \<longrightarrow> sortKey parse a = getTime parse v)
   \<and> (\<forall>v. \<not> truthy (map_of a ''date'') \<and> map_of a ''createdAt'' = Some v \<and> truthy (Some v)
        \<longrightarrow> sortKey parse a = getTime parse v)
   \<and> (\<not> truthy (map_of a ''date'') \<and> \<not> truthy (map_of a ''createdAt'')
        \<longrightarrow> sortKey parse a = Inr (Some 0))"
  by (simp add: sortKey_def js_or_def getTime_def timeClip_def)

text \<open>
  C1, as stated, fails: a \<open>date\<close> that does not parse makes the key \<^verbatim>\<open>NaN\<close>; the
  key does not fall back to \<open>createdAt\<close>, because \<^verbatim>\<open>a.date || a.createdAt\<close>
  takes \<open>createdAt\<close> only when \<open>date\<close> is falsy. With the keys the claim gives
  (2020 for the first record, 2024 from \<open>createdAt\<close> for the second) the
  listing below is oldest first. \<open>parse\<close> gives the values of \<^verbatim>\<open>Date.parse\<close>
  at the two strings it is asked about that are dates.
\<close>

theorem list_unparsable_date_counterexample:
  "get_projects
     (\<lambda>s. if s = ''2020-01-01'' then Some 1577836800000
          else if s = ''2024-01-01T00:00:00.000Z'' then Some 1704067200000 else None)
     (Some [[(''id'', JStr ''b''), (''date'', JStr ''2020-01-01'')],
            [(''id'', JStr ''a''), (''date'', JStr ''soon''),
             (''createdAt'', JStr ''2024-01-01T00:00:00.000Z'')]])
    = OkList [[(''id'', JStr ''b''), (''date'', JStr ''2020-01-01''), (''images'', JArr [])],
              [(''id'', JStr ''a''), (''date'', JStr ''soon''),
               (''createdAt'', JStr ''2024-01-01T00:00:00.000Z''), (''images'', JArr [])]]
   \<and> map (spec_sortKey
           (\<lambda>s. if s = ''2020-01-01'' then Some 1577836800000
                else if s = ''2024-01-01T00:00:00.000Z'' then Some 1704067200000 else None))
         [[(''id'', JStr ''b''), (''date'', JStr ''2020-01-01''), (''images'', JArr [])],
          [(''id'', JStr ''a''), (''date'', JStr ''soon''),
           (''createdAt'', JStr ''2024-01-01T00:00:00.000Z''), (''images'', JArr [])]]
      = [Some 1577836800000, Some 1704067200000]
   \<and> \<not> newest_first [Some 1577836800000, Some 1704067200000]"
  by (simp add: get_projects_def readProjects_def migrate_def js_or_def compareDates_def
      sortKey_def getTime_def spec_sortKey_def fieldTime_def newest_first_def)

text \<open>
  C1, amended: the key of a record is the time of its \<open>date\<close>; it falls back
  to \<open>createdAt\<close> when \<open>date\<close> is absent or empty (falsy), and to time 0
  when both are. For every store in which every record's key is a time, the
  listing returns all the records, newest first by that key, and records with
  equal keys in their stored order.
\<close>

theorem list_sorted_newest_first:
  assumes "\<forall>p\<in>set (readProjects doc). \<exists>t. sortKey parse p = Inr (Some t)"
  shows "\<exists>l. get_projects parse doc = OkList l
      \<and> mset l = mset (readProjects doc)
      \<and> newest_first (map (code_sortKey parse) l)
      \<and> (\<forall>t. filter (\<lambda>p. code_sortKey parse p = t) l
              = filter (\<lambda>p. code_sortKey parse p = t) (readProjects doc))
      \<and> (\<forall>a v. map_of a ''date'' = Some v \<and> truthy (Some v)
              \<longrightarrow> sortKey parse a = getTime parse v)
      \<and> (\<forall>a v. \<not> truthy (map_of a ''date'') \<and> map_of a ''createdAt'' = Some v \<and> truthy (Some v)
              \<longrightarrow> sortKey parse a = getTime parse v)
      \<and> (\<forall>a. \<not> truthy (map_of a ''date'') \<and> \<not> truthy (map_of a ''createdAt'')
              \<longrightarrow> sortKey parse a = Inr (Some 0))"
proof -
  from js_sort_sorted [OF assms] obtain r where
    r: "js_sort (compareDates parse) (readProjects doc) = Inr r"
    and A: "mset r = mset (readProjects doc)"
    and B: "newest_first (map (code_sortKey parse) r)"
    and C: "\<forall>t. filter (\<lambda>p. code_sortKey parse p = t) r
              = filter (\<lambda>p. code_sortKey parse p = t) (readProjects doc)"
    by blast
  have G: "get_projects parse doc = OkList r" using r by (simp add: get_projects_def)
  have D: "\<forall>a v. map_of a ''date'' = Some v \<and> truthy (Some v)
              \<longrightarrow> sortKey parse a = getTime parse v"
    and E: "\<forall>a v. \<not> truthy (map_of a ''date'') \<and> map_of a ''createdAt'' = Some v \<and> truthy (Some v)
              \<longrightarrow> sortKey parse a = getTime parse v"
    and F: "\<forall>a. \<not> truthy (map_of a ''date'') \<and> \<not> truthy (map_of a ''createdAt'')
              \<longrightarrow> sortKey parse a = Inr (Some 0)"
    using sortKey_fallback [of _ parse] by blast+
  show ?thesis
    by (rule exI [of _ r], intro conjI) (rule G, rule A, rule B, rule C, rule D, rule E, rule F)
qed

theorem list_sorted_newest_first_witness:
  "get_projects
     (\<lambda>s. if s = ''2020-01-01'' then Some 1577836800000
          else if s = ''2024-01-01T00:00:00.000Z'' then Some 1704067200000 else None)
     (Some [[(''id'', JStr ''b''), (''date'', JStr ''2020-01-01'')],
            [(''id'', JStr ''a''), (''createdAt'', JStr ''2024-01-01T00:00:00.000Z'')],
            [(''id'', JStr ''c''), (''date'', JStr ''2020-01-01'')],
            [(''id'', JStr ''d'')]])
    = OkList [[(''id'', JStr ''a''), (''createdAt'', JStr ''2024-01-01T00:00:00.000Z''),
               (''images'', JArr [])],
              [(''id'', JStr ''b''), (''date'', JStr ''2020-01-01''), (''images'', JArr [])],
              [(''id'', JStr ''c''), (''date'', JStr ''2020-01-01''), (''images'', JArr [])],
              [(''id'', JStr ''d''), (''images'', JArr [])]]
   \<and> newest_first [Some 1704067200000, Some 1577836800000, Some 1577836800000, Some 0]"
proof -
  let ?parse = "\<lambda>s. if s = ''2020-01-01'' then Some (1577836800000 :: int)
          else if s = ''2024-01-01T00:00:00.000Z'' then Some 1704067200000 else None"
  let ?doc = "Some [[(''id'', JStr ''b''), (''date'', JStr ''2020-01-01'')],
            [(''id'', JStr ''a''), (''createdAt'', JStr ''2024-01-01T00:00:00.000Z'')],
            [(''id'', JStr ''c''), (''date'', JStr ''2020-01-01'')],
            [(''id'', JStr ''d'')]]"
  have h: "\<forall>p\<in>set (readProjects ?doc). \<exists>t. sortKey ?parse p = Inr (Some t)"
    by (simp add: readProjects_def migrate_def js_or_def sortKey_def getTime_def timeClip_def)
  have direct: "get_projects ?parse ?doc
    = OkList [[(''id'', JStr ''a''), (''createdAt'', JStr ''2024-01-01T00:00:00.000Z''),
               (''images'', JArr [])],
              [(''id'', JStr ''b''), (''date'', JStr ''2020-01-01''), (''images'', JArr [])],
              [(''id'', JStr ''c''), (''date'', JStr ''2020-01-01''), (''images'', JArr [])],
              [(''id'', JStr ''d''), (''images'', JArr [])]]"
    by (simp add: get_projects_def readProjects_def migrate_def js_or_def compareDates_def
        sortKey_def getTime_def timeClip_def)
  from list_sorted_newest_first [OF h] direct
  have "newest_first (map (code_sortKey ?parse)
     [[(''id'', JStr ''a''), (''createdAt'', JStr ''2024-01-01T00:00:00.000Z''),
               (''images'', JArr [])],
              [(''id'', JStr ''b''), (''date'', JStr ''2020-01-01''), (''images'', JArr [])],
              [(''id'', JStr ''c''), (''date'', JStr ''2020-01-01''), (''images'', JArr [])],
              [(''id'', JStr ''d''), (''images'', JArr [])]])"
    by auto
  then have "newest_first [Some 1704067200000, Some 1577836800000, Some 1577836800000, Some 0]"
    by (simp add: code_sortKey_def sortKey_def js_or_def getTime_def timeClip_def)
  with direct show ?thesis by (intro conjI)
qed

section \<open>Escaping on the detail page\<close>

lemma replaceAll_append:
  "replaceAll c r (a @ b) = replaceAll c r a @ replaceAll c r b"
  by (simp add: replaceAll_def)

lemma replaceAll_Cons:
  "replaceAll c r (x # xs) = (if x = c then r else [x]) @ replaceAll c r xs"
  by (simp add: replaceAll_def)

lemma replaceAll_Nil: "replaceAll c r [] = []"
  by (simp add: replaceAll_def)

lemma escape_entities: "escape s = entities s"
proof (induction s)
  case Nil
  then show ?case by (simp add: escape_def entities_def replaceAll_Nil)
next
  case (Cons x xs)
  have "escape (x # xs) = html_entity x @ escape xs"
    by (simp add: escape_def replaceAll_Cons replaceAll_append replaceAll_Nil html_entity_def)
  with Cons show ?case by (simp add: entities_def)
qed

lemma entities_no_markup:
  "CHR ''<'' \<notin> set (entities s) \<and> CHR ''>'' \<notin> set (entities s)"
  by (induction s) (auto simp: entities_def html_entity_def)

lemma safe_text_of:
  "safe v = (case text_of v of None \<Rightarrow> Inl TypeError | Some s \<Rightarrow> Inr (entities s))"
  by (simp add: safe_def text_of_def escape_entities entities_def split: option.splits)

lemma text_of_or_empty: "text_of (js_or v (Some (JStr []))) = text_of v"
  by (simp add: text_of_def js_or_def)

lemma bindE_Inr:
  "bindE m f = Inr y \<longleftrightarrow> (\<exists>x. m = Inr x \<and> f x = Inr y)"
  by (cases m) (simp_all add: bindE_def)

lemma safe_Inr: "safe v = Inr y \<longleftrightarrow> (\<exists>s. text_of v = Some s \<and> y = entities s)"
  by (auto simp: safe_text_of split: option.splits)

lemma listItems_Inr:
  "listItems os = Inr y \<longleftrightarrow>
     (\<exists>ls. map (\<lambda>x. text_of (Some x)) os = map Some ls
         \<and> y = concat (map (\<lambda>l. ''<li>'' @ entities l @ ''</li>'') ls))"
proof (induction os arbitrary: y)
  case Nil
  then show ?case by auto
next
  case (Cons x xs)
  show ?case
  proof
    assume "listItems (x # xs) = Inr y"
    then obtain s r where s: "text_of (Some x) = Some s" and r: "listItems xs = Inr r"
      and y: "y = ''<li>'' @ entities s @ ''</li>'' @ r"
      by (auto simp: bindE_Inr safe_Inr)
    from r Cons.IH obtain ls where "map (\<lambda>x. text_of (Some x)) xs = map Some ls"
      and "r = concat (map (\<lambda>l. ''<li>'' @ entities l @ ''</li>'') ls)" by blast
    with s y have "map (\<lambda>x. text_of (Some x)) (x # xs) = map Some (s # ls)
        \<and> y = concat (map (\<lambda>l. ''<li>'' @ entities l @ ''</li>'') (s # ls))" by simp
    then show "\<exists>ls. map (\<lambda>x. text_of (Some x)) (x # xs) = map Some ls
         \<and> y = concat (map (\<lambda>l. ''<li>'' @ entities l @ ''</li>'') ls)" by blast
  next
    assume "\<exists>ls. map (\<lambda>x. text_of (Some x)) (x # xs) = map Some ls
         \<and> y = concat (map (\<lambda>l. ''<li>'' @ entities l @ ''</li>'') ls)"
    then obtain ls where m: "map (\<lambda>x. text_of (Some x)) (x # xs) = map Some ls"
      and y: "y = concat (map (\<lambda>l. ''<li>'' @ entities l @ ''</li>'') ls)" by blast
    from m obtain s rest where ls: "ls = s # rest" and s: "text_of (Some x) = Some s"
      and rest: "map (\<lambda>x. text_of (Some x)) xs = map Some rest" by (cases ls) auto
    from rest Cons.IH have "listItems xs = Inr (concat (map (\<lambda>l. ''<li>'' @ entities l @ ''</li>'') rest))"
      by blast
    with s y ls show "listItems (x # xs) = Inr y"
      by (simp add: bindE_def safe_text_of)
  qed
qed

lemma render_returns:
  assumes "text_of (map_of item ''title'') = Some title"
    and "text_of (map_of item ''date'') = Some date"
    and "text_of (map_of item ''summary'') = Some summary"
    and "text_of (map_of item ''purpose'') = Some purpose"
    and "text_of (map_of item ''results'') = Some results"
    and "js_or (map_of item ''outcomes'') (Some (JArr [])) = Some (JArr os)"
    and "map (\<lambda>x. text_of (Some x)) os = map Some leaders"
    and "imageSrc item = Inr src"
  shows "render tpl stringify item
    = Inr (tpl 0 @ entities title @ tpl 1 @ entities title @ tpl 2 @ src @ tpl 3
          @ entities date @ tpl 4 @ entities summary @ tpl 5
          @ concat (map (\<lambda>l. ''<li>'' @ entities l @ ''</li>'') leaders) @ tpl 6
          @ entities purpose @ tpl 7 @ entities results @ tpl 8
          @ stringify (case js_or (map_of item ''images'') (Some (JArr [])) of
                         Some v \<Rightarrow> v | None \<Rightarrow> JArr [])
          @ tpl 9)"
proof -
  have "listItems os = Inr (concat (map (\<lambda>l. ''<li>'' @ entities l @ ''</li>'') leaders))"
    unfolding listItems_Inr using assms(7) by blast
  then have "outcomesHtml item = Inr (concat (map (\<lambda>l. ''<li>'' @ entities l @ ''</li>'') leaders))"
    using assms(6) by (simp add: outcomesHtml_def)
  then show ?thesis
    using assms(1-5,8)
    by (simp add: render_def bindE_def safe_text_of text_of_or_empty)
qed

text \<open>
  C6: whenever the page is rendered, it is the fixed text of the template
  with, in the places of the title (twice), the date, the summary, each
  entry of \<open>outcomes\<close>, the purpose and the results, the text of that field
  with every \<^verbatim>\<open>&\<close>, \<^verbatim>\<open><\<close> and \<^verbatim>\<open>>\<close> replaced by its entity; an escaped text
  holds no \<^verbatim>\<open><\<close> and no \<^verbatim>\<open>>\<close>.
\<close>

theorem page_escapes_text_fields:
  assumes "render tpl stringify item = Inr html"
  shows "\<exists>title date summary purpose results os leaders src.
      text_of (map_of item ''title'') = Some title
    \<and> text_of (map_of item ''date'') = Some date
    \<and> text_of (map_of item ''summary'') = Some summary
    \<and> text_of (map_of item ''purpose'') = Some purpose
    \<and> text_of (map_of item ''results'') = Some results
    \<and> js_or (map_of item ''outcomes'') (Some (JArr [])) = Some (JArr os)
    \<and> map (\<lambda>x. text_of (Some x)) os = map Some leaders
    \<and> imageSrc item = Inr src
    \<and> html = tpl 0 @ entities title @ tpl 1 @ entities title @ tpl 2 @ src @ tpl 3
          @ entities date @ tpl 4 @ entities summary @ tpl 5
          @ concat (map (\<lambda>l. ''<li>'' @ entities l @ ''</li>'') leaders) @ tpl 6
          @ entities purpose @ tpl 7 @ entities results @ tpl 8
          @ stringify (case js_or (map_of item ''images'') (Some (JArr [])) of
                         Some v \<Rightarrow> v | None \<Rightarrow> JArr [])
          @ tpl 9
    \<and> (\<forall>s. CHR ''<'' \<notin> set (entities s) \<and> CHR ''>'' \<notin> set (entities s))
    \<and> (\<forall>s. entities s = concat (map html_entity s))"
proof -
  from assms obtain lh t1 t2 src d sm pp rs where
    lh: "outcomesHtml item = Inr lh"
    and t1: "safe (map_of item ''title'') = Inr t1"
    and t2: "safe (map_of item ''title'') = Inr t2"
    and src: "imageSrc item = Inr src"
    and d: "safe (js_or (map_of item ''date'') (Some (JStr []))) = Inr d"
    and sm: "safe (map_of item ''summary'') = Inr sm"
    and pp: "safe (js_or (map_of item ''purpose'') (Some (JStr []))) = Inr pp"
    and rs: "safe (js_or (map_of item ''results'') (Some (JStr []))) = Inr rs"
    and html: "html = tpl 0 @ t1 @ tpl 1 @ t2 @ tpl 2 @ src @ tpl 3 @ d @ tpl 4 @ sm
           @ tpl 5 @ lh @ tpl 6 @ pp @ tpl 7 @ rs @ tpl 8
           @ stringify (case js_or (map_of item ''images'') (Some (JArr [])) of
                          Some v \<Rightarrow> v | None \<Rightarrow> JArr [])
           @ tpl 9"
    unfolding render_def bindE_Inr by (elim exE conjE) auto
  from lh obtain os where os: "js_or (map_of item ''outcomes'') (Some (JArr [])) = Some (JArr os)"
    and li: "listItems os = Inr lh"
    by (auto simp: outcomesHtml_def split: option.splits jv.splits)
  from li obtain leaders where l1: "map (\<lambda>x. text_of (Some x)) os = map Some leaders"
    and l2: "lh = concat (map (\<lambda>l. ''<li>'' @ entities l @ ''</li>'') leaders)"
    unfolding listItems_Inr by blast
  from t1 t2 obtain title where ti: "text_of (map_of item ''title'') = Some title"
    and t1e: "t1 = entities title" and t2e: "t2 = entities title"
    by (auto simp: safe_Inr)
  from d obtain date where di: "text_of (map_of item ''date'') = Some date"
    and de: "d = entities date" by (auto simp: safe_Inr text_of_or_empty)
  from sm obtain summary where si: "text_of (map_of item ''summary'') = Some summary"
    and se: "sm = entities summary" by (auto simp: safe_Inr)
  from pp obtain purpose where pi: "text_of (map_of item ''purpose'') = Some purpose"
    and pe: "pp = entities purpose" by (auto simp: safe_Inr text_of_or_empty)
  from rs obtain results where ri: "text_of (map_of item ''results'') = Some results"
    and re: "rs = entities results" by (auto simp: safe_Inr text_of_or_empty)
  have H: "html = tpl 0 @ entities title @ tpl 1 @ entities title @ tpl 2 @ src @ tpl 3
          @ entities date @ tpl 4 @ entities summary @ tpl 5
          @ concat (map (\<lambda>l. ''<li>'' @ entities l @ ''</li>'') leaders) @ tpl 6
          @ entities purpose @ tpl 7 @ entities results @ tpl 8
          @ stringify (case js_or (map_of item ''images'') (Some (JArr [])) of
                         Some v \<Rightarrow> v | None \<Rightarrow> JArr [])
          @ tpl 9"
    unfolding html t1e t2e de se pe re l2 ..
  have N: "\<forall>s. CHR ''<'' \<notin> set (entities s) \<and> CHR ''>'' \<notin> set (entities s)"
    using entities_no_markup by blast
  have M: "\<forall>s. entities s = concat (map html_entity s)" by (simp add: entities_def)
  show ?thesis
    by (intro exI conjI) (rule ti, rule di, rule si, rule pi, rule ri, rule os, rule l1,
        rule src, rule H, rule N, rule M)
qed

theorem page_escapes_text_fields_witness:
  "render (\<lambda>k. ''#'') (\<lambda>v. ''[]'')
      [(''title'', JStr ''<b>A&B</b>''), (''outcomes'', JArr [JStr ''x>y'', JNull]),
       (''summary'', JNum 5 ''5'')]
    = Inr (''#&lt;b&gt;A&amp;B&lt;/b&gt;#&lt;b&gt;A&amp;B&lt;/b&gt;''
           @ ''#/assets/images/placeholder.png##5#<li>x&gt;y</li><li></li>###[]#'')
   \<and> entities ''<b>A&B</b>'' = ''&lt;b&gt;A&amp;B&lt;/b&gt;''"
proof -
  have h: "render (\<lambda>k. ''#'') (\<lambda>v. ''[]'')
      [(''title'', JStr ''<b>A&B</b>''), (''outcomes'', JArr [JStr ''x>y'', JNull]),
       (''summary'', JNum 5 ''5'')]
    = Inr (''#&lt;b&gt;A&amp;B&lt;/b&gt;#&lt;b&gt;A&amp;B&lt;/b&gt;''
           @ ''#/assets/images/placeholder.png##5#<li>x&gt;y</li><li></li>###[]#'')"
    by code_simp
  from page_escapes_text_fields [OF h]
  have "entities ''<b>A&B</b>'' = concat (map html_entity ''<b>A&B</b>'')" by blast
  then have "entities ''<b>A&B</b>'' = ''&lt;b&gt;A&amp;B&lt;/b&gt;''"
    by (simp add: html_entity_def)
  with h show ?thesis by (intro conjI)
qed

end
